theory Spec2Isabelle
  imports Complex_Main
begin

section \<open>Numeric model\<close>

text \<open>
  The source computes with numpy \<open>float64\<close> values. The model keeps the values the code
  can tell apart: a finite number (a real), the two infinities and NaN. A numpy scalar
  division by zero does not raise: it yields an infinity, or NaN for \<open>0 / 0\<close>. Signed
  zeros are not modelled; a zero denominator is read as \<open>+0.0\<close>.

  The principal-axis estimation and the local spread profile are modelled in exact real
  arithmetic. The fluorescence and the global spreads, whose results are rounded to two
  decimals, are modelled with the rounding of every \<open>float64\<close> operation (\<open>fl\<close> below),
  since an error of one unit in the last place can move a two-decimal result by 0.01.
\<close>

datatype npfloat = Fin real | PInf | NInf | NaN

fun np_add :: "npfloat \<Rightarrow> npfloat \<Rightarrow> npfloat" where
  "np_add (Fin a) (Fin b) = Fin (a + b)"
| "np_add NaN _ = NaN"
| "np_add _ NaN = NaN"
| "np_add PInf NInf = NaN"
| "np_add NInf PInf = NaN"
| "np_add PInf _ = PInf"
| "np_add _ PInf = PInf"
| "np_add NInf _ = NInf"
| "np_add _ NInf = NInf"

definition inf_signed :: "real \<Rightarrow> npfloat" where
  "inf_signed s = (if s > 0 then PInf else if s < 0 then NInf else NaN)"

fun np_mul :: "npfloat \<Rightarrow> npfloat \<Rightarrow> npfloat" where
  "np_mul (Fin a) (Fin b) = Fin (a * b)"
| "np_mul NaN _ = NaN"
| "np_mul _ NaN = NaN"
| "np_mul PInf (Fin b) = inf_signed b"
| "np_mul NInf (Fin b) = inf_signed (- b)"
| "np_mul (Fin a) PInf = inf_signed a"
| "np_mul (Fin a) NInf = inf_signed (- a)"
| "np_mul PInf PInf = PInf"
| "np_mul NInf NInf = PInf"
| "np_mul PInf NInf = NInf"
| "np_mul NInf PInf = NInf"

fun np_div :: "npfloat \<Rightarrow> npfloat \<Rightarrow> npfloat" where
  "np_div (Fin a) (Fin b) = (if b \<noteq> 0 then Fin (a / b) else inf_signed a)"
| "np_div NaN _ = NaN"
| "np_div _ NaN = NaN"
| "np_div (Fin a) PInf = Fin 0"
| "np_div (Fin a) NInf = Fin 0"
| "np_div PInf (Fin b) = (if b \<ge> 0 then PInf else NInf)"
| "np_div NInf (Fin b) = (if b \<ge> 0 then NInf else PInf)"
| "np_div _ _ = NaN"

fun np_arctan :: "npfloat \<Rightarrow> npfloat" where
  "np_arctan (Fin a) = Fin (arctan a)"
| "np_arctan PInf = Fin (pi / 2)"
| "np_arctan NInf = Fin (- (pi / 2))"
| "np_arctan NaN = NaN"

text \<open>
  Rounding to the nearest integer, ties going to the even one (\<open>np.rint\<close>).
\<close>

definition rint :: "real \<Rightarrow> int" where
  "rint x =
     (let f = \<lfloor>x\<rfloor>; d = x - of_int f
      in if d < 1 / 2 then f else if d > 1 / 2 then f + 1
         else if even f then f else f + 1)"

text \<open>
  Rounding a real to the nearest \<open>float64\<close>: 53 significant bits, ties to even. The
  exponent range is not bounded, so overflow and subnormal numbers are not modelled. An
  IEEE operation \<open>+\<close>, \<open>-\<close>, \<open>*\<close>, \<open>/\<close> or square root returns \<open>fl\<close> of the exact result.
\<close>

definition fl :: "real \<Rightarrow> real" where
  "fl x = (if x = 0 then 0
           else let e = \<lfloor>log 2 \<bar>x\<bar>\<rfloor>
                in of_int (rint (x * 2 powr (52 - of_int e))) * 2 powr (of_int e - 52))"

fun fl_mul :: "npfloat \<Rightarrow> npfloat \<Rightarrow> npfloat" where
  "fl_mul (Fin a) (Fin b) = Fin (fl (a * b))"
| "fl_mul a b = np_mul a b"

fun fl_div :: "npfloat \<Rightarrow> npfloat \<Rightarrow> npfloat" where
  "fl_div (Fin a) (Fin b) = (if b \<noteq> 0 then Fin (fl (a / b)) else inf_signed a)"
| "fl_div a b = np_div a b"

fun fl_sqrt :: "npfloat \<Rightarrow> npfloat" where
  "fl_sqrt (Fin a) = (if a < 0 then NaN else Fin (fl (sqrt a)))"
| "fl_sqrt PInf = PInf"
| "fl_sqrt NInf = NaN"
| "fl_sqrt NaN = NaN"

text \<open>
  \<open>round(x, 2)\<close> on a numpy scalar multiplies by 100, rounds to the nearest integer with
  ties going to the even one, and divides by 100, each step a \<open>float64\<close> operation.
  Infinities and NaN pass through.
\<close>

definition round2 :: "real \<Rightarrow> real" where
  "round2 x = fl (of_int (rint (fl (x * 100))) / 100)"

fun np_round2 :: "npfloat \<Rightarrow> npfloat" where
  "np_round2 (Fin a) = Fin (round2 a)"
| "np_round2 x = x"

fun is_fin :: "npfloat \<Rightarrow> bool" where
  "is_fin (Fin a) = True"
| "is_fin _ = False"

fun the_fin :: "npfloat \<Rightarrow> real" where
  "the_fin (Fin a) = a"
| "the_fin _ = 0"

fun nan_to_zero :: "npfloat \<Rightarrow> npfloat" where
  "nan_to_zero NaN = Fin 0"
| "nan_to_zero x = x"

text \<open>
  \<open>np.sum\<close> over \<open>float64\<close> values is a library routine whose order of additions is not
  fixed by the source; where its rounding matters the model takes it as the parameter
  \<open>np_sum\<close>, from the list of summands to the total.

  \<open>np.nansum\<close> replaces every NaN by zero and sums. When an infinity is among the
  summands the total is that infinity, or NaN when both infinities occur.
\<close>

type_synonym sum_fun = "real list \<Rightarrow> real"

definition nansum :: "sum_fun \<Rightarrow> npfloat list \<Rightarrow> npfloat" where
  "nansum np_sum xs =
     (let ys = map nan_to_zero xs
      in if list_all is_fin ys then Fin (np_sum (map the_fin ys))
         else foldl np_add (Fin 0) ys)"

section \<open>Data model\<close>

text \<open>
  A volume is a 3D array indexed \<open>image[y, x, z]\<close> (rows, columns, slices), here a list
  of rows, each a list of columns, each a list of depth samples, with finite intensities.
  A projection or a slice is a 2D array, a list of rows.
\<close>

type_synonym slice = "real list list"
type_synonym volume = "real list list list"

definition nrows_of :: "'a list list \<Rightarrow> nat" where
  "nrows_of v = length v"

definition ncols_of :: "'a list list \<Rightarrow> nat" where
  "ncols_of v = (case v of [] \<Rightarrow> 0 | r # _ \<Rightarrow> length r)"

definition depth_of :: "'a list list list \<Rightarrow> nat" where
  "depth_of v = (case v of [] \<Rightarrow> 0 | r # _ \<Rightarrow> (case r of [] \<Rightarrow> 0 | c # _ \<Rightarrow> length c))"

text \<open>The array is rectangular: every row has the same number of columns, every column
  the same number of slices.\<close>

definition rectangular :: "volume \<Rightarrow> bool" where
  "rectangular v \<longleftrightarrow>
     list_all (\<lambda>r. length r = ncols_of v \<and> list_all (\<lambda>c. length c = depth_of v) r) v"

text \<open>\<open>np.sum\<close> over a 1D, 2D and 3D array.\<close>

definition sum2 :: "real list list \<Rightarrow> real" where
  "sum2 m = sum_list (map sum_list m)"

definition sum3 :: "volume \<Rightarrow> real" where
  "sum3 v = sum_list (map sum2 v)"

text \<open>The processor object holds the three voxel sizes.\<close>

record processor =
  voxel_size_x :: real
  voxel_size_y :: real
  voxel_size_z :: real

section \<open>Fluorescence\<close>

text \<open>The voxels of a volume as one list, the summands of \<open>np.sum(image_3d)\<close>.\<close>

definition voxels :: "volume \<Rightarrow> real list" where
  "voxels v = concat (concat v)"

definition calculate_fluorescence ::
  "sum_fun \<Rightarrow> processor \<Rightarrow> volume \<Rightarrow> real \<Rightarrow> npfloat \<times> npfloat" where
  "calculate_fluorescence np_sum self image_3d mask_area_pixels =
     (let total_intensity = np_sum (voxels image_3d);
          fluor_px = fl_div (Fin total_intensity) (Fin mask_area_pixels);
          area_um2 = fl (mask_area_pixels * fl (voxel_size_x self * voxel_size_y self));
          fluor_um = fl_div (Fin total_intensity) (Fin area_um2)
      in (np_round2 fluor_px, np_round2 fluor_um))"

section \<open>Principal-axis estimation\<close>

text \<open>
  \<open>np.linalg.eig\<close> is a library routine; the model takes it as the parameter \<open>eig\<close>.
  It maps the 2x2 matrix (given by rows) to the pair of eigenvalues and the matrix of
  eigenvectors (given by rows), whose column \<open>i\<close> is paired with eigenvalue \<open>i\<close>.
\<close>

type_synonym mat2 = "(real \<times> real) \<times> (real \<times> real)"
type_synonym eig_fun = "mat2 \<Rightarrow> (real \<times> real) \<times> mat2"

text \<open>\<open>np.sum\<close> of an expression over the \<open>(Y, X)\<close> grid of row and column indices.\<close>

definition grid_sum :: "nat \<Rightarrow> nat \<Rightarrow> (nat \<Rightarrow> nat \<Rightarrow> real) \<Rightarrow> real" where
  "grid_sum nrows ncols g =
     sum_list (map (\<lambda>y. sum_list (map (\<lambda>x. g y x) [0..<ncols])) [0..<nrows])"

text \<open>The covariance matrix built by lines 150-179 from a projection with nonzero total.\<close>

definition covariance_matrix :: "slice \<Rightarrow> mat2" where
  "covariance_matrix projection_z =
     (let sum_projection = sum2 projection_z;
          projection_z_norm = map (map (\<lambda>p. p / sum_projection)) projection_z;
          nrows = nrows_of projection_z;
          ncols = ncols_of projection_z;
          Mx = grid_sum nrows ncols (\<lambda>y x. real x * projection_z_norm ! y ! x);
          My = grid_sum nrows ncols (\<lambda>y x. real y * projection_z_norm ! y ! x);
          Cxx = grid_sum nrows ncols (\<lambda>y x. projection_z_norm ! y ! x * (real x - Mx)\<^sup>2);
          Cyy = grid_sum nrows ncols (\<lambda>y x. projection_z_norm ! y ! x * (real y - My)\<^sup>2);
          Cxy = grid_sum nrows ncols
                  (\<lambda>y x. projection_z_norm ! y ! x * (real x - Mx) * (real y - My))
      in ((Cxx, Cxy), (Cxy, Cyy)))"

text \<open>Line 186: \<open>np.arctan(eigenvectors[1, 0] / eigenvectors[0, 0]) * 180 / np.pi\<close>.\<close>

definition first_column_angle :: "mat2 \<Rightarrow> npfloat" where
  "first_column_angle eigenvectors =
     (case eigenvectors of ((e00, e01), (e10, e11)) \<Rightarrow>
        np_div (np_mul (np_arctan (np_div (Fin e10) (Fin e00))) (Fin 180)) (Fin pi))"

definition calculate_pca_rotation_angle :: "eig_fun \<Rightarrow> volume \<Rightarrow> npfloat" where
  "calculate_pca_rotation_angle eig image_yxz =
     (let projection_z = map (map sum_list) image_yxz;
          sum_projection = sum2 projection_z
      in if sum_projection = 0 then Fin 0
         else (case eig (covariance_matrix projection_z) of
                 (eigenvalues, eigenvectors) \<Rightarrow> first_column_angle eigenvectors))"

section \<open>Re-alignment\<close>

datatype error =
    ValueError_negative_image nat
  | ValueError_negative_rotated nat
  | ValueError_shape_mismatch
  | ValueError_broadcast
  | IndexError

text \<open>
  \<open>scipy.ndimage.rotate\<close> (bilinear resampling of one 2D slice, canvas grown to fit) is a
  library routine; the model takes it as the parameter \<open>rot\<close>, from the angle and a slice to
  the rotated slice.
\<close>

type_synonym rot_fun = "npfloat \<Rightarrow> slice \<Rightarrow> slice"

definition slice_z :: "volume \<Rightarrow> nat \<Rightarrow> slice" where
  "slice_z v z = map (map (\<lambda>c. c ! z)) v"

definition shape2 :: "slice \<Rightarrow> nat \<times> nat" where
  "shape2 s = (nrows_of s, ncols_of s)"

definition stack_slices :: "nat \<Rightarrow> nat \<Rightarrow> slice list \<Rightarrow> volume" where
  "stack_slices nr nc slices =
     map (\<lambda>y. map (\<lambda>x. map (\<lambda>s. s ! y ! x) slices) [0..<nc]) [0..<nr]"

text \<open>
  Reading slice 0 of a volume with no slices raises IndexError. Assigning a rotated slice
  whose shape differs from the preallocated one raises ValueError.
\<close>

definition rotate_image :: "rot_fun \<Rightarrow> volume \<Rightarrow> npfloat \<Rightarrow> error + volume" where
  "rotate_image rot image_yxz angle =
     (let n_slices = depth_of image_yxz
      in if n_slices = 0 then Inl IndexError
         else
           let rotated_first = rot angle (slice_z image_yxz 0);
               slices = map (\<lambda>zi. rot angle (slice_z image_yxz zi)) [0..<n_slices]
           in if list_all (\<lambda>s. shape2 s = shape2 rotated_first) slices
              then Inr (stack_slices (nrows_of rotated_first) (ncols_of rotated_first) slices)
              else Inl ValueError_shape_mismatch)"

text \<open>\<open>np.rot90(m, k=1, axes=(0, 1))\<close>: the result has shape (columns, rows, depth) and
  \<open>result[i, j] = m[j, ncols - 1 - i]\<close>.\<close>

definition rot90 :: "volume \<Rightarrow> volume" where
  "rot90 m =
     (let nr = nrows_of m; nc = ncols_of m
      in map (\<lambda>i. map (\<lambda>j. m ! j ! (nc - 1 - i)) [0..<nr]) [0..<nc])"

section \<open>Local spreads\<close>

text \<open>
  The body of the loop, the same in both conventions: \<open>MM\<close> is the transposed slab, of
  shape \<open>(nz, ny)\<close>; \<open>np.sum(MM, axis=1)\<close> has one entry per depth position and
  \<open>np.sum(MM, axis=0)\<close> one entry per transverse in-plane position.
\<close>

definition arange1 :: "nat \<Rightarrow> real list" where
  "arange1 n = map real [1..<n + 1]"

definition slab_spreads :: "nat \<Rightarrow> nat \<Rightarrow> real list list \<Rightarrow> real \<times> npfloat \<times> npfloat" where
  "slab_spreads ny nz MM =
     (let yy00 = arange1 ny;
          zz00 = arange1 nz;
          MMsum_i = sum2 MM
      in if MMsum_i > 0 then
           let sum_axis1 = map sum_list MM;
               sum_axis0 = map (\<lambda>y. sum_list (map (\<lambda>r. r ! y) MM)) [0..<ny];
               MMz = sum_list (map2 (*) zz00 sum_axis1) / MMsum_i;
               MMy = sum_list (map2 (*) yy00 sum_axis0) / MMsum_i
           in (MMsum_i,
               Fin (sum_list (map2 (\<lambda>y w. (y - MMy)\<^sup>2 * w) yy00 sum_axis0) / MMsum_i),
               Fin (sum_list (map2 (\<lambda>z w. (z - MMz)\<^sup>2 * w) zz00 sum_axis1) / MMsum_i))
         else (MMsum_i, NaN, NaN))"

text \<open>\<open>image[:, i, :].T\<close> and \<open>image[i, :, :].T\<close>.\<close>

definition column_slab_T :: "volume \<Rightarrow> nat \<Rightarrow> real list list" where
  "column_slab_T v i =
     map (\<lambda>z. map (\<lambda>y. v ! y ! i ! z) [0..<nrows_of v]) [0..<depth_of v]"

definition row_slab_T :: "volume \<Rightarrow> nat \<Rightarrow> real list list" where
  "row_slab_T v i =
     map (\<lambda>z. map (\<lambda>x. v ! i ! x ! z) [0..<ncols_of v]) [0..<depth_of v]"

definition calculate_local_spreads ::
  "volume \<Rightarrow> bool \<Rightarrow> real list \<times> npfloat list \<times> npfloat list \<times> real list" where
  "calculate_local_spreads image_yxz_rotated after_90deg_rotation =
     (let nrows = nrows_of image_yxz_rotated;
          ncols = ncols_of image_yxz_rotated;
          depth = depth_of image_yxz_rotated
      in if after_90deg_rotation then
           let per_pos = map (\<lambda>i. slab_spreads nrows depth (column_slab_T image_yxz_rotated i))
                           [0..<ncols]
           in (map fst per_pos, map (fst \<circ> snd) per_pos, map (snd \<circ> snd) per_pos,
               arange1 ncols)
         else
           let per_pos = map (\<lambda>i. slab_spreads ncols depth (row_slab_T image_yxz_rotated i))
                           [0..<nrows]
           in (map fst per_pos, map (fst \<circ> snd) per_pos, map (snd \<circ> snd) per_pos,
               arange1 nrows))"

section \<open>Global spreads\<close>

text \<open>
  The result dictionary. The keys \<open>fluorescence_px\<close>, \<open>fluorescence_um\<close>,
  \<open>rotation_angle\<close> and \<open>additional_rotation\<close> are not always present: \<open>None\<close> is an
  absent key.
\<close>

record results =
  spread_x_pixel :: npfloat
  spread_y_pixel :: npfloat
  spread_z_pixel :: npfloat
  spread_xy_pixel :: npfloat
  spread_xyz_pixel :: npfloat
  spread_x_um :: npfloat
  spread_y_um :: npfloat
  spread_z_um :: npfloat
  spread_xy_um :: npfloat
  spread_xyz_um :: npfloat
  axonal_volume :: npfloat
  fluorescence_px :: "npfloat option"
  fluorescence_um :: "npfloat option"
  rotation_angle :: "npfloat option"
  additional_rotation :: "int option"
  MMsum :: "real list"
  MMyy :: "npfloat list"
  MMzz :: "npfloat list"

definition get_empty_results :: results where
  "get_empty_results =
     \<lparr> spread_x_pixel = Fin 0, spread_y_pixel = Fin 0, spread_z_pixel = Fin 0,
       spread_xy_pixel = Fin 0, spread_xyz_pixel = Fin 0,
       spread_x_um = Fin 0, spread_y_um = Fin 0, spread_z_um = Fin 0,
       spread_xy_um = Fin 0, spread_xyz_um = Fin 0,
       axonal_volume = Fin 0,
       fluorescence_px = Some (Fin 0), fluorescence_um = Some (Fin 0),
       rotation_angle = Some (Fin 0), additional_rotation = None,
       MMsum = [], MMyy = [], MMzz = [] \<rparr>"

text \<open>
  An elementwise operation on two 1D arrays. Arrays of equal length are combined position
  by position, an array of length 1 is broadcast against the other, and any other pair of
  lengths raises ValueError.
\<close>

definition broadcast :: "('a \<Rightarrow> 'b \<Rightarrow> 'c) \<Rightarrow> 'a list \<Rightarrow> 'b list \<Rightarrow> error + 'c list" where
  "broadcast f xs ys =
     (if length xs = length ys then Inr (map2 f xs ys)
      else if length xs = 1 then Inr (map (f (hd xs)) ys)
      else if length ys = 1 then Inr (map (\<lambda>x. f x (hd ys)) xs)
      else Inl ValueError_broadcast)"

text \<open>
  Lines 517-528, reached only when \<open>total_sum\<close> is not zero: the three pixel-unit spreads
  before rounding to two decimals. The voxel sizes play no part in them.
\<close>

definition pixel_spreads ::
  "sum_fun \<Rightarrow> real list \<Rightarrow> npfloat list \<Rightarrow> npfloat list \<Rightarrow> real list
     \<Rightarrow> error + npfloat \<times> npfloat \<times> npfloat" where
  "pixel_spreads np_sum msum vyy vzz xx00 =
     (let total_sum = np_sum msum
      in case broadcast (\<lambda>x s. fl (x * s)) xx00 msum of
           Inl e \<Rightarrow> Inl e
         | Inr xm \<Rightarrow>
             let MMx = fl (np_sum xm / total_sum);
                 sq = map (\<lambda>x. fl (fl (x - MMx) * fl (x - MMx))) xx00
             in case broadcast (\<lambda>s q. fl (s * q)) msum sq of
                  Inl e \<Rightarrow> Inl e
                | Inr w \<Rightarrow>
                    let MMxx = fl (np_sum w / total_sum);
                        sx = fl_sqrt (Fin MMxx)
                    in case broadcast (\<lambda>v s. fl_mul v (Fin s)) vyy msum of
                         Inl e \<Rightarrow> Inl e
                       | Inr wy \<Rightarrow>
                           let Total_var_y = fl_div (nansum np_sum wy) (Fin total_sum);
                               sy = fl_sqrt Total_var_y
                           in case broadcast (\<lambda>v s. fl_mul v (Fin s)) vzz msum of
                                Inl e \<Rightarrow> Inl e
                              | Inr wz \<Rightarrow>
                                  let Total_var_z =
                                        fl_div (nansum np_sum wz) (Fin total_sum);
                                      sz = fl_sqrt Total_var_z
                                  in Inr (sx, sy, sz))"

text \<open>The unrounded values of lines 517-546, in the order
  x, y, z (pixels), x, y, z (physical), xy, xyz (pixels), xy, xyz (physical).\<close>

record raw_spreads =
  spread_x_px :: npfloat
  spread_y_px :: npfloat
  spread_z_px :: npfloat
  raw_x_um :: npfloat
  raw_y_um :: npfloat
  raw_z_um :: npfloat
  spread_xy_px :: npfloat
  spread_xyz_px :: npfloat
  raw_xy_um :: npfloat
  raw_xyz_um :: npfloat

definition physical_spreads :: "processor \<Rightarrow> npfloat \<times> npfloat \<times> npfloat \<Rightarrow> raw_spreads" where
  "physical_spreads self p =
     (case p of (sx, sy, sz) \<Rightarrow>
        let ux = fl_mul sx (Fin (voxel_size_x self));
            uy = fl_mul sy (Fin (voxel_size_y self));
            uz = fl_mul sz (Fin (voxel_size_z self))
        in \<lparr> spread_x_px = sx, spread_y_px = sy, spread_z_px = sz,
             raw_x_um = ux, raw_y_um = uy, raw_z_um = uz,
             spread_xy_px = fl_mul sx sy, spread_xyz_px = fl_mul (fl_mul sx sy) sz,
             raw_xy_um = fl_mul ux uy, raw_xyz_um = fl_mul (fl_mul ux uy) uz \<rparr>)"

definition global_raw ::
  "sum_fun \<Rightarrow> processor \<Rightarrow> real list \<Rightarrow> npfloat list \<Rightarrow> npfloat list \<Rightarrow> real list
     \<Rightarrow> error + raw_spreads" where
  "global_raw np_sum self msum vyy vzz xx00 =
     (case pixel_spreads np_sum msum vyy vzz xx00 of
        Inl e \<Rightarrow> Inl e
      | Inr p \<Rightarrow> Inr (physical_spreads self p))"

definition rounded_results ::
  "raw_spreads \<Rightarrow> real \<Rightarrow> real list \<Rightarrow> npfloat list \<Rightarrow> npfloat list \<Rightarrow> results" where
  "rounded_results r total_sum msum vyy vzz =
     \<lparr> spread_x_pixel = np_round2 (spread_x_px r),
       spread_y_pixel = np_round2 (spread_y_px r),
       spread_z_pixel = np_round2 (spread_z_px r),
       spread_xy_pixel = np_round2 (spread_xy_px r),
       spread_xyz_pixel = np_round2 (spread_xyz_px r),
       spread_x_um = np_round2 (raw_x_um r),
       spread_y_um = np_round2 (raw_y_um r),
       spread_z_um = np_round2 (raw_z_um r),
       spread_xy_um = np_round2 (raw_xy_um r),
       spread_xyz_um = np_round2 (raw_xyz_um r),
       axonal_volume = np_round2 (Fin total_sum),
       fluorescence_px = None, fluorescence_um = None,
       rotation_angle = None, additional_rotation = None,
       MMsum = msum, MMyy = vyy, MMzz = vzz \<rparr>"

definition calculate_global_spreads ::
  "sum_fun \<Rightarrow> processor \<Rightarrow> real list \<Rightarrow> npfloat list \<Rightarrow> npfloat list \<Rightarrow> real list
     \<Rightarrow> error + results" where
  "calculate_global_spreads np_sum self msum vyy vzz xx00 =
     (let total_sum = np_sum msum
      in if total_sum = 0 then Inr get_empty_results
         else (case global_raw np_sum self msum vyy vzz xx00 of
                 Inl e \<Rightarrow> Inl e
               | Inr r \<Rightarrow> Inr (rounded_results r total_sum msum vyy vzz)))"

section \<open>Orchestration\<close>

text \<open>\<open>image_3d.transpose(1, 2, 0)\<close>: the result has shape
  \<open>(shape[1], shape[2], shape[0])\<close> and \<open>result[a, b, c] = image_3d[c, a, b]\<close>.\<close>

definition transpose_120 :: "volume \<Rightarrow> volume" where
  "transpose_120 v =
     map (\<lambda>a. map (\<lambda>b. map (\<lambda>c. v ! c ! a ! b) [0..<nrows_of v]) [0..<depth_of v])
       [0..<ncols_of v]"

definition count_negative :: "volume \<Rightarrow> nat" where
  "count_negative v = length (filter (\<lambda>a. a < 0) (voxels v))"

text \<open>Lines 634-640: a volume whose first extent is smaller than its last is taken to be
  in \<open>(Z, Y, X)\<close> layout and is reordered.\<close>

definition to_yxz :: "volume \<Rightarrow> volume" where
  "to_yxz image_3d =
     (if nrows_of image_3d < depth_of image_3d then transpose_120 image_3d else image_3d)"

definition process_image ::
  "processor \<Rightarrow> sum_fun \<Rightarrow> eig_fun \<Rightarrow> rot_fun \<Rightarrow> volume \<Rightarrow> real \<Rightarrow> error + results" where
  "process_image self np_sum eig rot image_3d mask_area_pixels =
     (let image_yxz = to_yxz image_3d
      in if list_ex (\<lambda>a. a < 0) (voxels image_yxz)
         then Inl (ValueError_negative_image (count_negative image_yxz))
         else
           let (fluor_px, fluor_um) =
                 calculate_fluorescence np_sum self image_yxz mask_area_pixels;
               angle = calculate_pca_rotation_angle eig image_yxz
           in (case rotate_image rot image_yxz angle of
                 Inl e \<Rightarrow> Inl e
               | Inr image_rotated \<Rightarrow>
                   if list_ex (\<lambda>a. a < 0) (voxels image_rotated)
                   then Inl (ValueError_negative_rotated (count_negative image_rotated))
                   else
                     let image_rotated_90 = rot90 image_rotated;
                         (msum, vyy, vzz, xx00) =
                            calculate_local_spreads image_rotated_90 True
                     in (case calculate_global_spreads np_sum self msum vyy vzz xx00 of
                           Inl e \<Rightarrow> Inl e
                         | Inr spread_results \<Rightarrow>
                             Inr (spread_results
                                    \<lparr> fluorescence_px := Some fluor_px,
                                      fluorescence_um := Some fluor_um,
                                      rotation_angle := Some (np_round2 angle),
                                      additional_rotation := Some 90 \<rparr>))))"

section \<open>Reference definitions\<close>

text \<open>
  The decomposition of a diagonal matrix as the library returns it: the eigenvalues in
  diagonal order, the eigenvectors the identity matrix. It stands for \<open>eig\<close> where a
  concrete decomposition is needed, on inputs whose covariance matrix is diagonal.
\<close>

definition eig_of_diagonal :: eig_fun where
  "eig_of_diagonal M = (case M of ((a, b), (c, d)) \<Rightarrow> ((a, d), ((1, 0), (0, 1))))"

text \<open>
  Adding up from left to right with a rounding after each addition. It stands for
  \<open>np_sum\<close> where a concrete summation is needed, on summands whose partial sums are all
  representable, so that the order of the additions does not matter.
\<close>

definition sum_in_order :: sum_fun where
  "sum_in_order xs = foldl (\<lambda>a x. fl (a + x)) 0 xs"

text \<open>
  The angle the specification asks for, in its words: that of the eigenvector paired with
  the larger eigenvalue.
\<close>

definition second_column_angle :: "mat2 \<Rightarrow> npfloat" where
  "second_column_angle eigenvectors =
     (case eigenvectors of ((e00, e01), (e10, e11)) \<Rightarrow>
        np_div (np_mul (np_arctan (np_div (Fin e11) (Fin e01))) (Fin 180)) (Fin pi))"

definition spec_principal_angle :: "(real \<times> real) \<times> mat2 \<Rightarrow> npfloat" where
  "spec_principal_angle dec =
     (case dec of ((w0, w1), eigenvectors) \<Rightarrow>
        if w0 \<ge> w1 then first_column_angle eigenvectors else second_column_angle eigenvectors)"

text \<open>
  The two-argument arctangent of the specification, over the raw components of the first
  eigenvector, in degrees.
\<close>

definition spec_arctan2 :: "real \<Rightarrow> real \<Rightarrow> real" where
  "spec_arctan2 y x =
     (if x > 0 then arctan (y / x)
      else if x < 0 \<and> y \<ge> 0 then arctan (y / x) + pi
      else if x < 0 then arctan (y / x) - pi
      else if y > 0 then pi / 2
      else if y < 0 then - (pi / 2)
      else 0)"

definition spec_two_argument_angle :: "mat2 \<Rightarrow> real" where
  "spec_two_argument_angle eigenvectors =
     (case eigenvectors of ((e00, e01), (e10, e11)) \<Rightarrow> spec_arctan2 e10 e00 * 180 / pi)"

text \<open>
  The transverse statistics of the slab at column \<open>i\<close> in the words of the specification:
  sums over the voxels of the slab, with 1-indexed row and depth positions.
\<close>

definition spec_slab_sum :: "volume \<Rightarrow> nat \<Rightarrow> real" where
  "spec_slab_sum v i = (\<Sum>y<nrows_of v. \<Sum>z<depth_of v. v ! y ! i ! z)"

definition spec_mean_row :: "volume \<Rightarrow> nat \<Rightarrow> real" where
  "spec_mean_row v i =
     (\<Sum>y<nrows_of v. \<Sum>z<depth_of v. real (y + 1) * v ! y ! i ! z) / spec_slab_sum v i"

definition spec_mean_depth :: "volume \<Rightarrow> nat \<Rightarrow> real" where
  "spec_mean_depth v i =
     (\<Sum>y<nrows_of v. \<Sum>z<depth_of v. real (z + 1) * v ! y ! i ! z) / spec_slab_sum v i"

definition spec_row_variance :: "volume \<Rightarrow> nat \<Rightarrow> real" where
  "spec_row_variance v i =
     (\<Sum>y<nrows_of v. \<Sum>z<depth_of v. (real (y + 1) - spec_mean_row v i)\<^sup>2 * v ! y ! i ! z)
       / spec_slab_sum v i"

definition spec_depth_variance :: "volume \<Rightarrow> nat \<Rightarrow> real" where
  "spec_depth_variance v i =
     (\<Sum>y<nrows_of v. \<Sum>z<depth_of v. (real (z + 1) - spec_mean_depth v i)\<^sup>2 * v ! y ! i ! z)
       / spec_slab_sum v i"

text \<open>A small volume of two rows, two columns and two slices whose second column is empty.\<close>

definition demo_volume :: volume where
  "demo_volume = [[[1, 3], [0, 0]], [[2, 2], [0, 0]]]"

text \<open>
  \<open>np.zeros\<close> of a 3D shape, an all-zero 2D array, and the property of a slice rotation
  that the resampling of an all-zero slice is an all-zero slice.
\<close>

definition np_zeros :: "nat \<Rightarrow> nat \<Rightarrow> nat \<Rightarrow> volume" where
  "np_zeros a b c = replicate a (replicate b (replicate c 0))"

definition zero_slice :: "slice \<Rightarrow> bool" where
  "zero_slice s \<longleftrightarrow> list_all (\<lambda>r. length r = ncols_of s \<and> list_all (\<lambda>a. a = 0) r) s"

definition maps_zero_to_zero :: "rot_fun \<Rightarrow> bool" where
  "maps_zero_to_zero rot \<longleftrightarrow> (\<forall>angle s. zero_slice s \<longrightarrow> zero_slice (rot angle s))"


definition scale_volume :: "real \<Rightarrow> volume \<Rightarrow> volume" where
  "scale_volume c v = map (map (map ((*) c))) v"



text \<open>The rotation that leaves every slice as it is, as the resampling at angle 0 does.\<close>

definition no_rotation :: rot_fun where
  "no_rotation angle s = s"

section \<open>Rounding\<close>

lemma rint_bounds: "\<bar>of_int (rint y) - y\<bar> \<le> 1 / 2"
  unfolding rint_def Let_def by (auto simp: abs_if) linarith+

lemma rint_of_int: "rint (of_int k) = k"
  by (simp add: rint_def)

lemma fl_zero: "fl 0 = 0"
  by (simp add: fl_def)

lemma fl_error: "\<bar>fl x - x\<bar> \<le> \<bar>x\<bar> / 2 ^ 53"
proof (cases "x = 0")
  case True
  then show ?thesis by (simp add: fl_def)
next
  case False
  define e where "e = \<lfloor>log 2 \<bar>x\<bar>\<rfloor>"
  define s :: real where "s = 2 powr (52 - of_int e)"
  have spos: "s > 0" by (simp add: s_def)
  have inv: "2 powr (of_int e - 52) = 1 / s"
  proof -
    have "2 powr (of_int e - 52) * s = 2 powr ((of_int e - 52) + (52 - of_int e))"
      unfolding s_def by (simp only: powr_add)
    then have "2 powr (of_int e - 52) * s = 1" by simp
    then show ?thesis using spos by (simp add: field_simps)
  qed
  have f: "fl x = of_int (rint (x * s)) / s"
    using False by (simp add: fl_def Let_def e_def [symmetric] s_def [symmetric] inv)
  have "of_int e \<le> log 2 \<bar>x\<bar>" unfolding e_def by simp
  then have "2 powr (of_int e) \<le> \<bar>x\<bar>"
    using False by (simp add: le_log_iff)
  then have "2 powr (of_int e) * s \<le> \<bar>x\<bar> * s" using spos by simp
  moreover have "2 powr (of_int e) * s = 2 ^ 52"
  proof -
    have "2 powr (of_int e) * s = 2 powr (of_int e + (52 - of_int e))"
      unfolding s_def by (simp only: powr_add)
    then show ?thesis by simp
  qed
  ultimately have big: "2 ^ 52 \<le> \<bar>x\<bar> * s" by simp
  have "\<bar>fl x - x\<bar> = \<bar>of_int (rint (x * s)) - x * s\<bar> / s"
    unfolding f using spos by (simp add: field_simps abs_if)
  also have "\<dots> \<le> (1 / 2) / s"
    using rint_bounds [of "x * s"] spos by (intro divide_right_mono) simp_all
  also have "\<dots> \<le> \<bar>x\<bar> / 2 ^ 53"
    using big spos by (simp add: field_simps)
  finally show ?thesis .
qed

lemma fl_scale_pow2: "fl (2 powr (of_int j) * x) = 2 powr (of_int j) * fl x"
proof (cases "x = 0")
  case True
  then show ?thesis by (simp add: fl_def)
next
  case False
  let ?c = "2 powr (of_int j) :: real"
  have cpos: "?c > 0" by simp
  have "log 2 \<bar>?c * x\<bar> = of_int j + log 2 \<bar>x\<bar>"
    using False by (simp add: abs_mult log_mult)
  then have e: "\<lfloor>log 2 \<bar>?c * x\<bar>\<rfloor> = j + \<lfloor>log 2 \<bar>x\<bar>\<rfloor>" by simp
  let ?e = "\<lfloor>log 2 \<bar>x\<bar>\<rfloor>"
  have a: "?c * x * 2 powr (52 - of_int (j + ?e)) = x * 2 powr (52 - of_int ?e)"
  proof -
    have "?c * 2 powr (52 - of_int (j + ?e)) = 2 powr (of_int j + (52 - of_int (j + ?e)))"
      by (simp only: powr_add)
    then have "?c * 2 powr (52 - of_int (j + ?e)) = 2 powr (52 - of_int ?e)" by simp
    then show ?thesis by (simp add: mult.assoc mult.left_commute)
  qed
  have b: "2 powr (of_int (j + ?e) - 52) = ?c * 2 powr (of_int ?e - 52)"
  proof -
    have "?c * 2 powr (of_int ?e - 52) = 2 powr (of_int j + (of_int ?e - 52))"
      by (simp only: powr_add)
    then show ?thesis by (simp add: algebra_simps)
  qed
  have nz: "?c * x \<noteq> 0" using False by simp
  have "fl (?c * x) = of_int (rint (?c * x * 2 powr (52 - of_int (j + ?e))))
                        * 2 powr (of_int (j + ?e) - 52)"
    using nz unfolding fl_def [of "?c * x"] Let_def e by (simp only: if_False)
  also have "\<dots> = of_int (rint (x * 2 powr (52 - of_int ?e))) * (?c * 2 powr (of_int ?e - 52))"
    by (simp only: a b)
  also have "\<dots> = ?c * fl x"
    using False unfolding fl_def [of x] Let_def by (simp only: if_False mult_ac)
  finally show ?thesis .
qed

lemma fl_int:
  assumes "\<bar>m\<bar> < 2 ^ 53"
  shows "fl (of_int m) = of_int m"
proof (cases "m = 0")
  case True
  then show ?thesis by (simp add: fl_def)
next
  case False
  define e where "e = \<lfloor>log 2 \<bar>of_int m :: real\<bar>\<rfloor>"
  have m1: "(1::real) \<le> \<bar>of_int m\<bar>" using False by (simp flip: of_int_abs)
  have m2: "\<bar>of_int m :: real\<bar> < 2 ^ 53"
    using assms by (metis of_int_abs of_int_less_numeral_power_cancel_iff)
  have "log 2 \<bar>of_int m :: real\<bar> < 53"
    using m1 m2 by (simp add: log_less_iff powr_realpow [symmetric])
  then have eu: "e \<le> 52" unfolding e_def by linarith
  define n where "n = nat (52 - e)"
  have n: "52 - (of_int e :: real) = real n" using eu by (simp add: n_def)
  have p1: "2 powr (52 - of_int e) = (2 :: real) ^ n"
    unfolding n by (simp add: powr_realpow)
  have p2: "(2 :: real) ^ n * 2 powr (of_int e - 52) = 1"
  proof -
    have "2 powr (52 - of_int e) * 2 powr (of_int e - 52)
            = (2 :: real) powr ((52 - of_int e) + (of_int e - 52))"
      by (simp only: powr_add)
    then show ?thesis unfolding p1 by simp
  qed
  have "fl (of_int m) = of_int (rint (of_int m * 2 ^ n)) * 2 powr (of_int e - 52)"
    using False unfolding fl_def Let_def e_def [symmetric] p1 by simp
  also have "of_int m * (2 :: real) ^ n = of_int (m * 2 ^ n)" by simp
  also have "rint (of_int (m * 2 ^ n)) = m * 2 ^ n" by (rule rint_of_int)
  also have "(of_int (m * 2 ^ n) :: real) * 2 powr (of_int e - 52)
               = of_int m * (2 ^ n * 2 powr (of_int e - 52))"
    by simp
  also have "\<dots> = of_int m" unfolding p2 by simp
  finally show ?thesis .
qed

lemma fl_dyadic:
  assumes "\<bar>m\<bar> < 2 ^ 53"
  shows "fl (of_int m / 2 ^ k) = of_int m / 2 ^ k"
proof -
  have c: "2 powr (of_int (- int k)) = 1 / (2 :: real) ^ k"
    by (simp add: powr_minus powr_realpow field_simps)
  have "fl (2 powr (of_int (- int k)) * of_int m) = 2 powr (of_int (- int k)) * fl (of_int m)"
    by (rule fl_scale_pow2)
  then show ?thesis unfolding c fl_int [OF assms] by simp
qed

lemma fl_abs_le: "\<bar>fl x\<bar> \<le> 2 * \<bar>x\<bar>"
proof -
  have "\<bar>fl x\<bar> \<le> \<bar>fl x - x\<bar> + \<bar>x\<bar>" by simp
  also have "\<dots> \<le> \<bar>x\<bar> / 2 ^ 53 + \<bar>x\<bar>" using fl_error [of x] by simp
  also have "\<dots> \<le> 2 * \<bar>x\<bar>" by simp
  finally show ?thesis .
qed

lemma fl_pos: "x > 0 \<Longrightarrow> fl x > 0"
  using fl_error [of x] by (simp add: abs_if field_simps split: if_splits)

lemma round2_error: "\<bar>round2 x - x\<bar> \<le> 1 / 200 + (3 * \<bar>x\<bar> + 1 / 200) / 2 ^ 53"
proof -
  define a where "a = fl (x * 100)"
  define n where "n = rint a"
  have r: "round2 x = fl (of_int n / 100)" by (simp add: round2_def a_def n_def)
  have e1: "\<bar>a - x * 100\<bar> \<le> \<bar>x\<bar> * 100 / 2 ^ 53"
    using fl_error [of "x * 100"] by (simp add: a_def abs_mult)
  have e2: "\<bar>of_int n - a\<bar> \<le> 1 / 2" unfolding n_def by (rule rint_bounds)
  have e3: "\<bar>round2 x - of_int n / 100\<bar> \<le> \<bar>of_int n :: real\<bar> / 100 / 2 ^ 53"
    using fl_error [of "of_int n / 100"] by (simp add: r)
  have a2: "\<bar>a\<bar> \<le> 200 * \<bar>x\<bar>" using fl_abs_le [of "x * 100"] by (simp add: a_def abs_mult)
  have n2: "\<bar>of_int n :: real\<bar> \<le> 200 * \<bar>x\<bar> + 1 / 2" using e2 a2 by linarith
  have e3': "\<bar>round2 x - of_int n / 100\<bar> \<le> (2 * \<bar>x\<bar> + 1 / 200) / 2 ^ 53"
  proof -
    have "\<bar>of_int n :: real\<bar> / 100 / 2 ^ 53 \<le> (200 * \<bar>x\<bar> + 1 / 2) / 100 / 2 ^ 53"
      using n2 by (intro divide_right_mono) simp_all
    then show ?thesis using e3 by (simp add: field_simps)
  qed
  have "\<bar>round2 x - x\<bar> \<le> \<bar>round2 x - of_int n / 100\<bar> + \<bar>of_int n - a\<bar> / 100
                           + \<bar>a - x * 100\<bar> / 100"
    by (simp add: abs_if field_simps split: if_splits)
  also have "\<dots> \<le> (2 * \<bar>x\<bar> + 1 / 200) / 2 ^ 53 + (1 / 2) / 100 + (\<bar>x\<bar> * 100 / 2 ^ 53) / 100"
    using e3' e2 e1 by (intro add_mono divide_right_mono) simp_all
  also have "\<dots> = 1 / 200 + (3 * \<bar>x\<bar> + 1 / 200) / 2 ^ 53" by (simp add: field_simps)
  finally show ?thesis .
qed

lemma round2_fl_error:
  "\<bar>round2 (fl p) - p\<bar> \<le> 1 / 200 + (7 * \<bar>p\<bar> + 1 / 200) / 2 ^ 53"
proof -
  have "\<bar>round2 (fl p) - p\<bar> \<le> \<bar>round2 (fl p) - fl p\<bar> + \<bar>fl p - p\<bar>" by simp
  also have "\<dots> \<le> (1 / 200 + (3 * \<bar>fl p\<bar> + 1 / 200) / 2 ^ 53) + \<bar>p\<bar> / 2 ^ 53"
    using round2_error [of "fl p"] fl_error [of p] by (intro add_mono) simp_all
  also have "\<dots> \<le> (1 / 200 + (3 * (2 * \<bar>p\<bar>) + 1 / 200) / 2 ^ 53) + \<bar>p\<bar> / 2 ^ 53"
    using fl_abs_le [of p] by (intro add_mono divide_right_mono) simp_all
  also have "\<dots> = 1 / 200 + (7 * \<bar>p\<bar> + 1 / 200) / 2 ^ 53" by (simp add: field_simps)
  finally show ?thesis .
qed

lemma rint_near:
  assumes "of_int m - 1 / 2 < y" "y < of_int m + 1 / 2"
  shows "rint y = m"
proof -
  have "\<lfloor>y\<rfloor> = m \<or> \<lfloor>y\<rfloor> = m - 1" using assms by linarith
  then show ?thesis
  proof
    assume f: "\<lfloor>y\<rfloor> = m"
    then have "y - of_int m < 1 / 2" using assms by linarith
    then show ?thesis by (simp add: rint_def Let_def f)
  next
    assume f: "\<lfloor>y\<rfloor> = m - 1"
    then have "y - of_int (m - 1) > 1 / 2" using assms by simp
    then show ?thesis by (simp add: rint_def Let_def f)
  qed
qed

lemma fl_unit:
  assumes "2 ^ 52 \<le> \<bar>y\<bar>" "\<bar>y\<bar> < 2 ^ 53"
  shows "fl y = of_int (rint y)"
proof -
  have nz: "y \<noteq> 0" using assms(1) by auto
  have pos: "\<bar>y\<bar> > 0" using nz by simp
  have "log 2 \<bar>y\<bar> < 53"
    using assms(2) pos by (simp add: log_less_iff powr_realpow [symmetric])
  moreover have "52 \<le> log 2 \<bar>y\<bar>"
    using assms(1) pos by (simp add: le_log_iff powr_realpow [symmetric])
  ultimately have e: "\<lfloor>log 2 \<bar>y\<bar>\<rfloor> = 52" by linarith
  show ?thesis using nz by (simp add: fl_def Let_def e)
qed

lemma fl_eval:
  assumes "2 ^ 52 \<le> \<bar>x\<bar> * 2 ^ k" "\<bar>x\<bar> * 2 ^ k < 2 ^ 53"
  shows "fl x = of_int (rint (x * 2 ^ k)) / 2 ^ k"
proof -
  have c: "2 powr (of_int (- int k)) = 1 / (2 :: real) ^ k"
    by (simp add: powr_minus powr_realpow field_simps)
  have "fl (2 powr (of_int (- int k)) * (x * 2 ^ k))
          = 2 powr (of_int (- int k)) * fl (x * 2 ^ k)"
    by (rule fl_scale_pow2)
  moreover have "fl (x * 2 ^ k) = of_int (rint (x * 2 ^ k))"
    by (rule fl_unit) (use assms in \<open>simp_all add: abs_mult\<close>)
  ultimately show ?thesis unfolding c by simp
qed

lemma fl_sqrt_eval:
  assumes "(of_int m - 1 / 2)\<^sup>2 < a * 4 ^ k" "a * 4 ^ k < (of_int m + 1 / 2)\<^sup>2"
    and "2 ^ 52 < m" "m < 2 ^ 53"
  shows "fl (sqrt a) = of_int m / 2 ^ k"
proof -
  let ?y = "sqrt a * 2 ^ k"
  have "(2 :: int) ^ 52 + 1 \<le> m" using assms(3) by linarith
  then have "(of_int ((2 :: int) ^ 52 + 1) :: real) \<le> of_int m" by (simp only: of_int_le_iff)
  then have m1: "(2 :: real) ^ 52 + 1 \<le> of_int m" by simp
  have "m \<le> (2 :: int) ^ 53 - 1" using assms(4) by linarith
  then have "(of_int m :: real) \<le> of_int ((2 :: int) ^ 53 - 1)" by (simp only: of_int_le_iff)
  then have m2: "(of_int m :: real) \<le> 2 ^ 53 - 1" by simp
  have y: "?y = sqrt (a * 4 ^ k)"
    by (simp add: real_sqrt_mult real_sqrt_power)
  have lo: "of_int m - 1 / 2 < ?y"
    unfolding y using assms(1) m1 by (intro real_less_rsqrt) simp
  have hi: "?y < of_int m + 1 / 2"
    unfolding y using assms(2) m1 by (intro real_less_lsqrt) simp_all
  have r: "rint ?y = m" by (rule rint_near [OF lo hi])
  have "(0 :: real) < 2 ^ 52" by simp
  then have ypos: "?y > 0" using lo m1 by linarith
  have "sqrt a > 0" using ypos by (simp add: zero_less_mult_iff)
  then have ab: "\<bar>sqrt a\<bar> * 2 ^ k = ?y" by simp
  have a1: "2 ^ 52 \<le> \<bar>sqrt a\<bar> * 2 ^ k" unfolding ab using lo m1 by linarith
  have a2: "\<bar>sqrt a\<bar> * 2 ^ k < 2 ^ 53" unfolding ab using hi m2 by linarith
  have "fl (sqrt a) = of_int (rint ?y) / 2 ^ k"
    by (rule fl_eval [OF a1 a2])
  then show ?thesis unfolding r .
qed

text \<open>
  The \<open>float64\<close> operations of three runs, evaluated: the fluorescence of a volume of total
  203 over a region of area 200; the global spreads of the profile with sums 1, 4 at
  positions 1, 2, with voxel size 1.0625 along x; and those of the profiles with sums 1, 9
  and 3, 27 at positions 1, 2, with voxel size 0.75 along x.
\<close>

lemma fl_table_integers:
  "fl 1 = 1" "fl 3 = 3" "fl 5 = 5" "fl 8 = 8" "fl 9 = 9" "fl 10 = 10" "fl 18 = 18" "fl 19 = 19"
  "fl 30 = 30" "fl 54 = 54" "fl 57 = 57" "fl 200 = 200" "fl 203 = 203"
  using fl_int [of 1] fl_int [of 3] fl_int [of 5] fl_int [of 8] fl_int [of 9] fl_int [of 10]
    fl_int [of 18] fl_int [of 19] fl_int [of 30] fl_int [of 54] fl_int [of 57] fl_int [of 200]
    fl_int [of 203]
  by simp_all

lemma fl_table_1:
  "fl (- (2026619832316723 / 2251799813685248))
     = - (2026619832316723 / 2251799813685248)"
  using fl_eval [of "- (2026619832316723 / 2251799813685248)" 53]
  by (simp add: rint_def Let_def)

lemma fl_table_2:
  "fl (- (3602879701896397 / 4503599627370496))
     = - (3602879701896397 / 4503599627370496)"
  using fl_eval [of "- (3602879701896397 / 4503599627370496)" 53]
  by (simp add: rint_def Let_def)

lemma fl_table_3:
  "fl (50706024009129266131860675625 / 5070602400912917605986812821504)
     = 5764607523034245 / 576460752303423488"
  using fl_eval [of "50706024009129266131860675625 / 5070602400912917605986812821504" 59]
  by (simp add: rint_def Let_def)

lemma fl_table_4:
  "fl (811296384146066456669919861801 / 20282409603651670423947251286016)
     = 720575940379279 / 18014398509481984"
  using fl_eval [of "811296384146066456669919861801 / 20282409603651670423947251286016" 57]
  by (simp add: rint_def Let_def)

lemma fl_table_5:
  "fl (8106479329266893 / 90071992547409920)
     = 3242591731706757 / 36028797018963968"
  using fl_eval [of "8106479329266893 / 90071992547409920" 56]
  by (simp add: rint_def Let_def)

lemma fl_table_6:
  "fl (607985949695017 / 6755399441055744)
     = 6485183463413515 / 72057594037927936"
  using fl_eval [of "607985949695017 / 6755399441055744" 56]
  by (simp add: rint_def Let_def)

lemma fl_table_7:
  "fl (51881467707308205 / 576460752303423488)
     = 3242591731706763 / 36028797018963968"
  using fl_eval [of "51881467707308205 / 576460752303423488" 56]
  by (simp add: rint_def Let_def)

lemma fl_table_8:
  "fl (225179981368525 / 2251799813685248)
     = 225179981368525 / 2251799813685248"
  using fl_eval [of "225179981368525 / 2251799813685248" 56]
  by (simp add: rint_def Let_def)

lemma fl_table_9:
  "fl (720575940379279 / 4503599627370496)
     = 720575940379279 / 4503599627370496"
  using fl_eval [of "720575940379279 / 4503599627370496" 55]
  by (simp add: rint_def Let_def)

lemma fl_table_10:
  "fl (3602879701896397 / 22517998136852480)
     = 5764607523034235 / 36028797018963968"
  using fl_eval [of "3602879701896397 / 22517998136852480" 55]
  by (simp add: rint_def Let_def)

lemma fl_table_11:
  "fl (900719925474099 / 4503599627370496)
     = 900719925474099 / 4503599627370496"
  using fl_eval [of "900719925474099 / 4503599627370496" 55]
  by (simp add: rint_def Let_def)

lemma fl_table_12:
  "fl (11 / 50)
     = 7926335344172073 / 36028797018963968"
  using fl_eval [of "11 / 50" 55]
  by (simp add: rint_def Let_def)

lemma fl_table_13:
  "fl (16212958658533785 / 72057594037927936)
     = 2026619832316723 / 9007199254740992"
  using fl_eval [of "16212958658533785 / 72057594037927936" 55]
  by (simp add: rint_def Let_def)

lemma fl_table_14:
  "fl (4053239664633447 / 18014398509481984)
     = 4053239664633447 / 18014398509481984"
  using fl_eval [of "4053239664633447 / 18014398509481984" 55]
  by (simp add: rint_def Let_def)

lemma fl_table_15:
  "fl (23 / 100)
     = 8286623314361713 / 36028797018963968"
  using fl_eval [of "23 / 100" 55]
  by (simp add: rint_def Let_def)

lemma fl_table_16:
  "fl (155644403121924615 / 576460752303423488)
     = 303992974847509 / 1125899906842624"
  using fl_eval [of "155644403121924615 / 576460752303423488" 54]
  by (simp add: rint_def Let_def)

lemma fl_table_17:
  "fl (21 / 50)
     = 7566047373982433 / 18014398509481984"
  using fl_eval [of "21 / 50" 54]
  by (simp add: rint_def Let_def)

lemma fl_table_18:
  "fl (61248954932238749 / 144115188075855872)
     = 1914029841632461 / 4503599627370496"
  using fl_eval [of "61248954932238749 / 144115188075855872" 54]
  by (simp add: rint_def Let_def)

lemma fl_table_19:
  "fl (43 / 100)
     = 7746191359077253 / 18014398509481984"
  using fl_eval [of "43 / 100" 54]
  by (simp add: rint_def Let_def)

lemma fl_table_20:
  "fl (12980742146337070512478121581609 / 20282409603651670423947251286016)
     = 1441151880758559 / 2251799813685248"
  using fl_eval [of "12980742146337070512478121581609 / 20282409603651670423947251286016" 53]
  by (simp add: rint_def Let_def)

lemma fl_table_21:
  "fl (1441151880758559 / 2251799813685248)
     = 1441151880758559 / 2251799813685248"
  using fl_eval [of "1441151880758559 / 2251799813685248" 53]
  by (simp add: rint_def Let_def)

lemma fl_table_22:
  "fl (3602879701896397 / 4503599627370496)
     = 3602879701896397 / 4503599627370496"
  using fl_eval [of "3602879701896397 / 4503599627370496" 53]
  by (simp add: rint_def Let_def)

lemma fl_table_23:
  "fl (3647915698170101 / 4503599627370496)
     = 3647915698170101 / 4503599627370496"
  using fl_eval [of "3647915698170101 / 4503599627370496" 53]
  by (simp add: rint_def Let_def)

lemma fl_table_24:
  "fl (4107187944739462450201385458729 / 5070602400912917605986812821504)
     = 3647915698170101 / 4503599627370496"
  using fl_eval [of "4107187944739462450201385458729 / 5070602400912917605986812821504" 53]
  by (simp add: rint_def Let_def)

lemma fl_table_25:
  "fl (32425917317067571 / 36028797018963968)
     = 8106479329266893 / 9007199254740992"
  using fl_eval [of "32425917317067571 / 36028797018963968" 53]
  by (simp add: rint_def Let_def)

lemma fl_table_26:
  "fl (101 / 100)
     = 4548635623644201 / 4503599627370496"
  using fl_eval [of "101 / 100" 52]
  by (simp add: rint_def Let_def)

lemma fl_table_27:
  "fl (203 / 200)
     = 4571153621781053 / 4503599627370496"
  using fl_eval [of "203 / 200" 52]
  by (simp add: rint_def Let_def)

lemma fl_table_28:
  "fl (51 / 50)
     = 2296835809958953 / 2251799813685248"
  using fl_eval [of "51 / 50" 52]
  by (simp add: rint_def Let_def)

lemma fl_table_29:
  "fl (9 / 5)
     = 8106479329266893 / 4503599627370496"
  using fl_eval [of "9 / 5" 52]
  by (simp add: rint_def Let_def)

lemma fl_table_30:
  "fl (19 / 10)
     = 4278419646001971 / 2251799813685248"
  using fl_eval [of "19 / 10" 52]
  by (simp add: rint_def Let_def)

lemma fl_table_31:
  "fl (10943747094510303 / 4503599627370496)
     = 341992096703447 / 140737488355328"
  using fl_eval [of "10943747094510303 / 4503599627370496" 51]
  by (simp add: rint_def Let_def)

lemma fl_table_32:
  "fl (341992096703447 / 140737488355328)
     = 341992096703447 / 140737488355328"
  using fl_eval [of "341992096703447 / 140737488355328" 51]
  by (simp add: rint_def Let_def)

lemma fl_table_33:
  "fl (3039929748475085 / 1125899906842624)
     = 3039929748475085 / 1125899906842624"
  using fl_eval [of "3039929748475085 / 1125899906842624" 51]
  by (simp add: rint_def Let_def)

lemma fl_table_34:
  "fl (50665495807918075 / 2251799813685248)
     = 6333186975989759 / 281474976710656"
  using fl_eval [of "50665495807918075 / 2251799813685248" 48]
  by (simp add: rint_def Let_def)

lemma fl_table_35:
  "fl (101330991615836175 / 4503599627370496)
     = 6333186975989761 / 281474976710656"
  using fl_eval [of "101330991615836175 / 4503599627370496" 48]
  by (simp add: rint_def Let_def)

lemma fl_table_36:
  "fl (47850746040811525 / 1125899906842624)
     = 5981343255101441 / 140737488355328"
  using fl_eval [of "47850746040811525 / 1125899906842624" 47]
  by (simp add: rint_def Let_def)

lemma fl_table_37:
  "fl (114278840544526325 / 1125899906842624)
     = 7142427534032895 / 70368744177664"
  using fl_eval [of "114278840544526325 / 1125899906842624" 46]
  by (simp add: rint_def Let_def)

lemmas fl_table =
  fl_table_integers fl_table_1 fl_table_2 fl_table_3 fl_table_4 fl_table_5 fl_table_6 fl_table_7
  fl_table_8 fl_table_9 fl_table_10 fl_table_11 fl_table_12 fl_table_13 fl_table_14 fl_table_15
  fl_table_16 fl_table_17 fl_table_18 fl_table_19 fl_table_20 fl_table_21 fl_table_22 fl_table_23
  fl_table_24 fl_table_25 fl_table_26 fl_table_27 fl_table_28 fl_table_29 fl_table_30 fl_table_31
  fl_table_32 fl_table_33 fl_table_34 fl_table_35 fl_table_36 fl_table_37

lemma fl_sqrt_table_1:
  "fl (sqrt (3242591731706757 / 36028797018963968))
     = 5404319552844595 / 18014398509481984"
  using fl_sqrt_eval [of 5404319552844595 "3242591731706757 / 36028797018963968" 54]
  by (simp add: power2_eq_square)

lemma fl_sqrt_table_2:
  "fl (sqrt (6485183463413515 / 72057594037927936))
     = 1351079888211149 / 4503599627370496"
  using fl_sqrt_eval [of 5404319552844596 "6485183463413515 / 72057594037927936" 54]
  by (simp add: power2_eq_square)

lemma fl_sqrt_table_3:
  "fl (sqrt (5764607523034235 / 36028797018963968))
     = 3602879701896397 / 9007199254740992"
  using fl_sqrt_eval [of 7205759403792794 "5764607523034235 / 36028797018963968" 54]
  by (simp add: power2_eq_square)

lemma rint_table:
  "rint (6333186975989759 / 281474976710656) = 22"
  "rint (6333186975989761 / 281474976710656) = 23" "rint (85 / 2) = 42"
  "rint (5981343255101441 / 140737488355328) = 43"
  "rint (7142427534032895 / 70368744177664) = 101" "rint (203 / 2) = 102"
  by (simp_all add: rint_def Let_def)

lemma fl_values:
  "fl 1 = 1" "fl 2 = 2" "fl 3 = 3" "fl 4 = 4" "fl 6 = 6" "fl 10 = 10" "fl 250 = 250"
  "fl 256 = 256" "fl 1000 = 1000" "fl (- 1) = - 1"
  "fl (1 / 4) = 1 / 4" "fl (5 / 2) = 5 / 2" "fl (1 / 256) = 1 / 256" "fl (1 / 128) = 1 / 128"
  "fl (1 / 64) = 1 / 64" "fl (25 / 64) = 25 / 64" "fl (25 / 32) = 25 / 32"
  using fl_int [of 1] fl_int [of 2] fl_int [of 3] fl_int [of 4] fl_int [of 6] fl_int [of 10]
    fl_int [of 250] fl_int [of 256] fl_int [of 1000] fl_int [of "- 1"]
    fl_dyadic [of 1 2] fl_dyadic [of 5 1] fl_dyadic [of 1 8] fl_dyadic [of 1 7]
    fl_dyadic [of 1 6] fl_dyadic [of 25 6] fl_dyadic [of 25 5]
  by simp_all

lemma rint_values: "rint 0 = 0" "rint (25 / 64) = 0" "rint (25 / 32) = 1" "rint 250 = 250"
  "rint 1000 = 1000"
  by (simp_all add: rint_def Let_def)

section \<open>Fluorescence is reported rounded\<close>

text \<open>
  C5, as stated: the returned fluorescence per pixel equals the total intensity divided by
  the region area exactly. It does not: the function returns the quotient rounded to two
  decimals. For a single voxel of intensity 1 and region area 256 the quotient is
  0.00390625 and the function returns 0.0.
\<close>

theorem fluorescence_exact_counterexample:
  "fst (calculate_fluorescence sum_in_order
          \<lparr>voxel_size_x = 1, voxel_size_y = 1, voxel_size_z = 1\<rparr> [[[1]]] 256) = Fin 0
   \<and> Fin 0 \<noteq> Fin (sum3 [[[1]]] / 256)
   \<and> sum_in_order (voxels [[[1]]]) = sum3 [[[1]]]"
  by (simp add: calculate_fluorescence_def sum_in_order_def voxels_def sum3_def sum2_def
      round2_def fl_values fl_zero rint_values Let_def)

text \<open>
  C5, amended: for a strictly positive region area (and positive voxel sizes) the returned
  fluorescence per pixel is the \<open>float64\<close> quotient of the total intensity, as \<open>np.sum\<close>
  returns it, by the region area, rounded to two decimals; the value per square micrometre
  is the same with the region area times \<open>voxelX * voxelY\<close>, computed in \<open>float64\<close>, as
  the divisor. Each returned value \<open>r\<close> is finite and lies within
  \<open>0.005 + (7 |q| + 0.005) / 2^53\<close> of the exact quotient \<open>q\<close>.
\<close>

theorem fluorescence_rounded:
  assumes "mask_area_pixels > 0" and "voxel_size_x self > 0" and "voxel_size_y self > 0"
  shows "(let T = np_sum (voxels image_3d);
              A = fl (mask_area_pixels * fl (voxel_size_x self * voxel_size_y self));
              p = round2 (fl (T / mask_area_pixels));
              q = round2 (fl (T / A))
          in calculate_fluorescence np_sum self image_3d mask_area_pixels = (Fin p, Fin q)
           \<and> A > 0
           \<and> \<bar>p - T / mask_area_pixels\<bar>
                \<le> 1 / 200 + (7 * \<bar>T / mask_area_pixels\<bar> + 1 / 200) / 2 ^ 53
           \<and> \<bar>q - T / A\<bar> \<le> 1 / 200 + (7 * \<bar>T / A\<bar> + 1 / 200) / 2 ^ 53)"
proof -
  let ?A = "fl (mask_area_pixels * fl (voxel_size_x self * voxel_size_y self))"
  have "fl (voxel_size_x self * voxel_size_y self) > 0"
    using assms(2,3) by (intro fl_pos) simp
  then have A: "?A > 0" using assms(1) by (intro fl_pos) simp
  show ?thesis
    unfolding Let_def calculate_fluorescence_def
    using A assms(1) round2_fl_error [of "np_sum (voxels image_3d) / mask_area_pixels"]
      round2_fl_error [of "np_sum (voxels image_3d) / ?A"]
    by simp
qed

theorem fluorescence_rounded_witness:
  "(0::real) < 4 \<and> (0::real) < 1 / 2
   \<and> sum_in_order (voxels [[[1, 2], [3, 4]]]) = 10
   \<and> calculate_fluorescence sum_in_order
        \<lparr>voxel_size_x = 1 / 2, voxel_size_y = 1 / 2, voxel_size_z = 1\<rparr>
        [[[1, 2], [3, 4]]] 4 = (Fin (5 / 2), Fin 10)
   \<and> \<bar>5 / 2 - 10 / 4\<bar> \<le> 1 / 200 + (7 * \<bar>10 / 4 :: real\<bar> + 1 / 200) / 2 ^ 53"
  using fluorescence_rounded
    [of 4 "\<lparr>voxel_size_x = 1 / 2, voxel_size_y = 1 / 2, voxel_size_z = 1\<rparr>" sum_in_order
        "[[[1, 2], [3, 4]]]"]
  by (simp add: Let_def sum_in_order_def voxels_def fl_values round2_def rint_values)

text \<open>
  The quotient that is rounded to two decimals is the \<open>float64\<close> one. For a total of 203
  and a region area of 200 the exact quotient is 1.015, a tie that rounding to even would
  take to 1.02; the \<open>float64\<close> quotient lies just below it and the function returns 1.01.
\<close>

lemma fluorescence_float_quotient:
  "calculate_fluorescence sum_in_order
      \<lparr>voxel_size_x = 1, voxel_size_y = 1, voxel_size_z = 1\<rparr> [[[203]]] 200
     = (Fin (fl (101 / 100)), Fin (fl (101 / 100)))
   \<and> rint (203 / 200 * 100) = 102 \<and> fl (101 / 100) \<noteq> fl (102 / 100)"
  by (simp add: calculate_fluorescence_def sum_in_order_def voxels_def round2_def Let_def
      fl_table rint_table)

section \<open>The degenerate profile\<close>



section \<open>The rotation angle\<close>

lemma first_column_angle_cases:
  "first_column_angle ((e00, e01), (e10, e11)) =
     (if e00 \<noteq> 0 then Fin (arctan (e10 / e00) * 180 / pi)
      else if e10 > 0 then Fin 90
      else if e10 < 0 then Fin (- 90)
      else NaN)"
  by (simp add: first_column_angle_def inf_signed_def)

lemma arctan_degrees_bound: "\<bar>arctan x * 180 / pi\<bar> \<le> 90"
proof -
  have "\<bar>arctan x\<bar> < pi / 2" using arctan_bounded [of x] by (simp add: abs_if)
  then have "\<bar>arctan x\<bar> * 180 \<le> 90 * pi" by simp
  then show ?thesis by (simp add: abs_mult field_simps)
qed

lemma cov_two_rows: "covariance_matrix [[1], [1]] = ((0, 0), (0, 1 / 4))"
  by (simp add: covariance_matrix_def sum2_def grid_sum_def nrows_of_def ncols_of_def Let_def
      power2_eq_square)

text \<open>
  C1: the returned angle should be that of the eigenvector paired with the larger
  eigenvalue. The function reads column 0 of the eigenvector matrix whatever the
  eigenvalues are. For the volume of two rows, one column and one slice with unit
  intensities the covariance matrix is diagonal with entries 0 and 1/4; the decomposition
  returns the eigenvalues in that order, so column 0 belongs to the smaller eigenvalue:
  the function returns 0 degrees, while the eigenvector of the larger eigenvalue is at 90.
\<close>

theorem pca_angle_first_column_not_principal:
  "calculate_pca_rotation_angle eig_of_diagonal [[[1]], [[1]]] = Fin 0
   \<and> eig_of_diagonal (covariance_matrix (map (map sum_list) [[[1]], [[1]]]))
       = ((0, 1 / 4), ((1, 0), (0, 1)))
   \<and> spec_principal_angle (eig_of_diagonal (covariance_matrix (map (map sum_list) [[[1]], [[1]]])))
       = Fin 90"
  by (simp add: calculate_pca_rotation_angle_def cov_two_rows eig_of_diagonal_def sum2_def
      first_column_angle_cases spec_principal_angle_def second_column_angle_def inf_signed_def)

text \<open>
  C2, as stated: the angle is a two-argument arctangent over the raw eigenvector
  components. It is not: for the first eigenvector \<open>(-1, 0)\<close> the code's expression gives 0
  degrees, the two-argument arctangent 180.
\<close>

theorem angle_two_argument_counterexample:
  "first_column_angle ((- 1, 0), (0, 1)) = Fin 0
   \<and> spec_two_argument_angle ((- 1, 0), (0, 1)) = 180"
  by (simp add: first_column_angle_cases spec_two_argument_angle_def spec_arctan2_def)

text \<open>
  C2, amended: the angle is the one-argument arctangent, in degrees, of the quotient of the
  first eigenvector's components, the quotient being a floating-point division that does
  not raise. The function always returns a value: 0 for a projection of zero total;
  otherwise the arctangent of the quotient when the component along the reference axis is
  nonzero, and when it is zero, 90 or -90 by the sign of the other component (NaN if both
  are zero).
\<close>

theorem angle_is_arctan_of_quotient:
  "calculate_pca_rotation_angle eig image_yxz =
     (if sum2 (map (map sum_list) image_yxz) = 0 then Fin 0
      else case snd (eig (covariance_matrix (map (map sum_list) image_yxz))) of
             ((e00, e01), (e10, e11)) \<Rightarrow>
               if e00 \<noteq> 0 then Fin (arctan (e10 / e00) * 180 / pi)
               else if e10 > 0 then Fin 90
               else if e10 < 0 then Fin (- 90)
               else NaN)"
  by (simp add: calculate_pca_rotation_angle_def first_column_angle_cases split: prod.splits)

text \<open>
  C9: whenever the decomposition returns a first eigenvector that is not the zero vector,
  the returned angle is a finite number in the closed interval from -90 to 90 degrees; it
  is 0 for a projection of zero total.
\<close>

theorem pca_angle_range:
  assumes "\<forall>M. case eig M of (w, ((e00, e01), (e10, e11))) \<Rightarrow> e00 \<noteq> 0 \<or> e10 \<noteq> 0"
  shows "(\<exists>r. calculate_pca_rotation_angle eig image_yxz = Fin r \<and> - 90 \<le> r \<and> r \<le> 90)
       \<and> (sum2 (map (map sum_list) image_yxz) = 0 \<longrightarrow>
            calculate_pca_rotation_angle eig image_yxz = Fin 0)"
proof -
  have nz: "\<exists>r. first_column_angle vecs = Fin r \<and> - 90 \<le> r \<and> r \<le> 90"
    if "fst (fst vecs) \<noteq> 0 \<or> fst (snd vecs) \<noteq> 0" for vecs
  proof -
    obtain e00 e01 e10 e11 where v: "vecs = ((e00, e01), (e10, e11))"
      by (metis prod.collapse)
    show ?thesis using that arctan_degrees_bound [of "e10 / e00"]
      unfolding v first_column_angle_cases by (auto simp: abs_if split: if_splits)
  qed
  show ?thesis
  proof (cases "sum2 (map (map sum_list) image_yxz) = 0")
    case True
    then show ?thesis by (simp add: calculate_pca_rotation_angle_def)
  next
    case False
    obtain w vecs where e: "eig (covariance_matrix (map (map sum_list) image_yxz)) = (w, vecs)"
      by (metis prod.collapse)
    from assms have "fst (fst vecs) \<noteq> 0 \<or> fst (snd vecs) \<noteq> 0"
      using e by (metis (mono_tags, lifting) case_prod_conv prod.collapse)
    from nz [OF this] show ?thesis using False e
      by (simp add: calculate_pca_rotation_angle_def)
  qed
qed

theorem pca_angle_range_witness:
  "(\<forall>M. case eig_of_diagonal M of (w, ((e00, e01), (e10, e11))) \<Rightarrow> e00 \<noteq> 0 \<or> e10 \<noteq> 0)
   \<and> (\<exists>r. calculate_pca_rotation_angle eig_of_diagonal [[[1]], [[1]]] = Fin r
            \<and> - 90 \<le> r \<and> r \<le> 90)
   \<and> sum2 (map (map sum_list) [[[0]], [[0]]]) = 0
   \<and> calculate_pca_rotation_angle eig_of_diagonal [[[0]], [[0]]] = Fin 0"
  using pca_angle_range [of eig_of_diagonal "[[[1]], [[1]]]"]
    pca_angle_range [of eig_of_diagonal "[[[0]], [[0]]]"]
  by (simp add: eig_of_diagonal_def sum2_def split: prod.splits)

section \<open>Negative intensities\<close>

lemma rectangular_nth:
  assumes "rectangular v" "c < length v"
  shows "length (v ! c) = ncols_of v" and "a < ncols_of v \<Longrightarrow> length (v ! c ! a) = depth_of v"
  using assms by (auto simp: rectangular_def list_all_length)

lemma voxels_mem_rect:
  assumes "rectangular v" "x \<in> set (voxels v)"
  shows "\<exists>c a b. c < nrows_of v \<and> a < ncols_of v \<and> b < depth_of v \<and> x = v ! c ! a ! b"
proof -
  from assms(2) obtain r col where r: "r \<in> set v" and col: "col \<in> set r" and x: "x \<in> set col"
    by (auto simp: voxels_def)
  from r obtain c where c: "c < length v" "r = v ! c" by (auto simp: in_set_conv_nth)
  from col obtain a where a: "a < length r" "col = r ! a" by (auto simp: in_set_conv_nth)
  from x obtain b where b: "b < length col" "x = col ! b" by (auto simp: in_set_conv_nth)
  have la: "a < ncols_of v" using rectangular_nth(1) [OF assms(1) c(1)] a c by simp
  have "b < depth_of v" using rectangular_nth(2) [OF assms(1) c(1) la] a b c by simp
  with la c a b show ?thesis by (auto simp: nrows_of_def)
qed

lemma voxels_transpose_mem:
  assumes "c < nrows_of v" "a < ncols_of v" "b < depth_of v"
  shows "v ! c ! a ! b \<in> set (voxels (transpose_120 v))"
proof -
  let ?cell = "\<lambda>a b. map (\<lambda>c. v ! c ! a ! b) [0..<nrows_of v]"
  let ?row = "\<lambda>a. map (?cell a) [0..<depth_of v]"
  have 1: "v ! c ! a ! b \<in> set (?cell a b)" using assms(1) by auto
  have 2: "?cell a b \<in> set (?row a)" using assms(3) by auto
  have 3: "?row a \<in> set (transpose_120 v)"
    using assms(2) unfolding transpose_120_def by auto
  from 2 3 have "?cell a b \<in> set (concat (transpose_120 v))"
    unfolding set_concat by blast
  with 1 show ?thesis unfolding voxels_def set_concat [of "concat (transpose_120 v)"] by blast
qed

lemma negative_survives_layout:
  assumes "rectangular v" "list_ex (\<lambda>a. a < 0) (voxels v)"
  shows "list_ex (\<lambda>a. a < 0) (voxels (to_yxz v))"
proof (cases "nrows_of v < depth_of v")
  case True
  from assms(2) obtain x where x: "x \<in> set (voxels v)" "x < 0" by (auto simp: list_ex_iff)
  from voxels_mem_rect [OF assms(1) x(1)] obtain c a b where
    "c < nrows_of v" "a < ncols_of v" "b < depth_of v" "x = v ! c ! a ! b" by blast
  then have "x \<in> set (voxels (transpose_120 v))" using voxels_transpose_mem by simp
  with x(2) True show ?thesis by (auto simp: list_ex_iff to_yxz_def)
next
  case False
  with assms(2) show ?thesis by (simp add: to_yxz_def)
qed

lemma count_negative_pos: "list_ex (\<lambda>a. a < 0) (voxels v) \<Longrightarrow> count_negative v > 0"
  by (auto simp: count_negative_def list_ex_iff filter_empty_conv)

text \<open>
  C4: a volume with a negative intensity makes \<open>process_image\<close> raise the ValueError of
  line 644 (with the positive count of negative voxels) instead of returning a result; and
  when the input has no negative value but the rotated volume has one, it raises the
  ValueError of line 660. No path replaces a negative value by another one.
\<close>

theorem process_image_rejects_negative:
  assumes "rectangular image_3d"
  shows "(list_ex (\<lambda>a. a < 0) (voxels image_3d) \<longrightarrow>
            process_image self np_sum eig rot image_3d mask_area_pixels
              = Inl (ValueError_negative_image (count_negative (to_yxz image_3d)))
            \<and> count_negative (to_yxz image_3d) > 0)
       \<and> (\<not> list_ex (\<lambda>a. a < 0) (voxels (to_yxz image_3d)) \<longrightarrow>
            rotate_image rot (to_yxz image_3d)
                (calculate_pca_rotation_angle eig (to_yxz image_3d)) = Inr image_rotated \<longrightarrow>
            list_ex (\<lambda>a. a < 0) (voxels image_rotated) \<longrightarrow>
            process_image self np_sum eig rot image_3d mask_area_pixels
              = Inl (ValueError_negative_rotated (count_negative image_rotated))
            \<and> count_negative image_rotated > 0)"
  using negative_survives_layout [OF assms] count_negative_pos
  by (auto simp: process_image_def Let_def split: prod.splits)

lemma upt_1: "[0..<1] = [0]" by (simp add: upt_rec)

theorem process_image_rejects_negative_witness:
  "rectangular [[[- 1]]] \<and> list_ex (\<lambda>a. a < 0) (voxels [[[- 1]]])
   \<and> process_image \<lparr>voxel_size_x = 1, voxel_size_y = 1, voxel_size_z = 1\<rparr>
        sum_in_order eig_of_diagonal (\<lambda>a s. s) [[[- 1]]] 1 = Inl (ValueError_negative_image 1)
   \<and> rectangular [[[1]]] \<and> \<not> list_ex (\<lambda>a. a < 0) (voxels (to_yxz [[[1]]]))
   \<and> rotate_image (\<lambda>a s. map (map uminus) s) (to_yxz [[[1]]])
        (calculate_pca_rotation_angle eig_of_diagonal (to_yxz [[[1]]])) = Inr [[[- 1]]]
   \<and> process_image \<lparr>voxel_size_x = 1, voxel_size_y = 1, voxel_size_z = 1\<rparr>
        sum_in_order eig_of_diagonal (\<lambda>a s. map (map uminus) s) [[[1]]] 1 = Inl (ValueError_negative_rotated 1)"
  using process_image_rejects_negative
    [where image_3d = "[[[- 1]]]" and eig = eig_of_diagonal and rot = "\<lambda>a s. s"
       and self = "\<lparr>voxel_size_x = 1, voxel_size_y = 1, voxel_size_z = 1\<rparr>"
       and mask_area_pixels = 1 and np_sum = sum_in_order and image_rotated = "[]"]
    process_image_rejects_negative
    [where image_3d = "[[[1]]]" and eig = eig_of_diagonal
       and rot = "\<lambda>a s. map (map uminus) s"
       and self = "\<lparr>voxel_size_x = 1, voxel_size_y = 1, voxel_size_z = 1\<rparr>"
       and mask_area_pixels = 1 and np_sum = sum_in_order and image_rotated = "[[[- 1]]]"]
  by (simp add: rectangular_def voxels_def to_yxz_def nrows_of_def ncols_of_def depth_of_def
      count_negative_def rotate_image_def slice_z_def shape2_def stack_slices_def upt_1)

section \<open>Local spreads\<close>

lemma arange1_conv: "arange1 n = map (\<lambda>k. real (k + 1)) [0..<n]"
proof -
  have "[1..<n + 1] = map Suc [0..<n]" by (simp add: map_Suc_upt)
  then show ?thesis by (simp add: arange1_def)
qed

lemma sum_list_upt: "sum_list (map f [0..<n]) = (\<Sum>k<n. (f k :: real))"
  by (simp add: interv_sum_list_conv_sum_set_nat atLeast0LessThan)

lemma weighted_sum_arange:
  "sum_list (map2 h (arange1 n) (map g [0..<n])) = (\<Sum>k<n. (h (real (k + 1)) (g k) :: real))"
proof -
  have "map2 h (arange1 n) (map g [0..<n]) = map (\<lambda>k. h (real (k + 1)) (g k)) [0..<n]"
    unfolding arange1_conv by (simp add: zip_map_map zip_same_conv_map)
  then show ?thesis by (simp only: sum_list_upt)
qed

lemma axis1_column: "map sum_list (column_slab_T v i)
    = map (\<lambda>z. \<Sum>y<nrows_of v. v ! y ! i ! z) [0..<depth_of v]"
  by (simp add: column_slab_T_def sum_list_upt comp_def)

lemma axis0_column:
  "map (\<lambda>y. sum_list (map (\<lambda>r. r ! y) (column_slab_T v i))) [0..<nrows_of v]
    = map (\<lambda>y. \<Sum>z<depth_of v. v ! y ! i ! z) [0..<nrows_of v]"
  by (simp add: column_slab_T_def sum_list_upt comp_def)

lemma sum2_column: "sum2 (column_slab_T v i) = spec_slab_sum v i"
proof -
  have "sum2 (column_slab_T v i) = (\<Sum>z<depth_of v. \<Sum>y<nrows_of v. v ! y ! i ! z)"
    unfolding sum2_def axis1_column by (simp only: sum_list_upt)
  also have "\<dots> = spec_slab_sum v i" unfolding spec_slab_sum_def by (rule sum.swap)
  finally show ?thesis .
qed

lemma slab_spreads_column:
  "slab_spreads (nrows_of v) (depth_of v) (column_slab_T v i) =
     (if spec_slab_sum v i > 0
      then (spec_slab_sum v i, Fin (spec_row_variance v i), Fin (spec_depth_variance v i))
      else (spec_slab_sum v i, NaN, NaN))"
proof (cases "spec_slab_sum v i > 0")
  case False
  then show ?thesis by (simp add: slab_spreads_def sum2_column Let_def)
next
  case True
  let ?S = "spec_slab_sum v i"
  let ?ny = "nrows_of v" and ?nz = "depth_of v"
  have my: "sum_list (map2 (*) (arange1 ?ny) (map (\<lambda>y. \<Sum>z<?nz. v ! y ! i ! z) [0..<?ny])) / ?S
              = spec_mean_row v i"
    unfolding weighted_sum_arange spec_mean_row_def by (simp add: sum_distrib_left)
  have mz: "sum_list (map2 (*) (arange1 ?nz) (map (\<lambda>z. \<Sum>y<?ny. v ! y ! i ! z) [0..<?nz])) / ?S
              = spec_mean_depth v i"
  proof -
    have "(\<Sum>z<?nz. real (z + 1) * (\<Sum>y<?ny. v ! y ! i ! z))
            = (\<Sum>z<?nz. \<Sum>y<?ny. real (z + 1) * v ! y ! i ! z)"
      by (simp add: sum_distrib_left)
    also have "\<dots> = (\<Sum>y<?ny. \<Sum>z<?nz. real (z + 1) * v ! y ! i ! z)" by (rule sum.swap)
    finally show ?thesis unfolding weighted_sum_arange spec_mean_depth_def by simp
  qed
  have vy: "sum_list (map2 (\<lambda>y w. (y - m)\<^sup>2 * w) (arange1 ?ny)
                (map (\<lambda>y. \<Sum>z<?nz. v ! y ! i ! z) [0..<?ny]))
              = (\<Sum>y<?ny. \<Sum>z<?nz. (real (y + 1) - m)\<^sup>2 * v ! y ! i ! z)" for m
    unfolding weighted_sum_arange by (simp add: sum_distrib_left)
  have vz: "sum_list (map2 (\<lambda>z w. (z - m)\<^sup>2 * w) (arange1 ?nz)
                (map (\<lambda>z. \<Sum>y<?ny. v ! y ! i ! z) [0..<?nz]))
              = (\<Sum>y<?ny. \<Sum>z<?nz. (real (z + 1) - m)\<^sup>2 * v ! y ! i ! z)" for m
  proof -
    have "(\<Sum>z<?nz. (real (z + 1) - m)\<^sup>2 * (\<Sum>y<?ny. v ! y ! i ! z))
            = (\<Sum>z<?nz. \<Sum>y<?ny. (real (z + 1) - m)\<^sup>2 * v ! y ! i ! z)"
      by (simp add: sum_distrib_left)
    also have "\<dots> = (\<Sum>y<?ny. \<Sum>z<?nz. (real (z + 1) - m)\<^sup>2 * v ! y ! i ! z)"
      by (rule sum.swap)
    finally show ?thesis unfolding weighted_sum_arange by simp
  qed
  show ?thesis
    using True unfolding slab_spreads_def Let_def sum2_column axis1_column axis0_column my mz vy vz
    by (simp add: spec_row_variance_def spec_depth_variance_def)
qed

text \<open>
  C6: in the standard convention, at every column position \<open>i\<close> the profile holds the
  intensity sum of the slab at that column; when this sum is strictly positive the two
  variances are the intensity-weighted variances of the 1-indexed row positions and of the
  1-indexed depth positions around their intensity-weighted means, each divided by the slab
  sum; when the sum is zero both variances are NaN.
\<close>

theorem local_spreads_standard:
  assumes "i < ncols_of v"
  shows "(case calculate_local_spreads v True of (msum, vyy, vzz, xx00) \<Rightarrow>
           length msum = ncols_of v \<and> length vyy = ncols_of v \<and> length vzz = ncols_of v
         \<and> msum ! i = spec_slab_sum v i
         \<and> (spec_slab_sum v i > 0 \<longrightarrow>
              vyy ! i = Fin (spec_row_variance v i) \<and> vzz ! i = Fin (spec_depth_variance v i))
         \<and> (spec_slab_sum v i = 0 \<longrightarrow> vyy ! i = NaN \<and> vzz ! i = NaN))"
  using assms by (simp add: calculate_local_spreads_def Let_def slab_spreads_column)

lemma demo_shape: "nrows_of demo_volume = 2" "ncols_of demo_volume = 2" "depth_of demo_volume = 2"
  by (simp_all add: demo_volume_def nrows_of_def ncols_of_def depth_of_def)

lemma lessThan_2: "{..<2::nat} = {0, 1}" by auto

lemma demo_spec_values:
  "spec_slab_sum demo_volume 0 = 8" "spec_slab_sum demo_volume (Suc 0) = 0"
  "spec_row_variance demo_volume 0 = 1 / 4" "spec_depth_variance demo_volume 0 = 15 / 64"
  by (simp_all add: spec_slab_sum_def spec_row_variance_def spec_depth_variance_def
      spec_mean_row_def spec_mean_depth_def nrows_of_def ncols_of_def depth_of_def lessThan_2
      demo_volume_def power2_eq_square)

theorem local_spreads_standard_witness:
  "0 < ncols_of demo_volume \<and> spec_slab_sum demo_volume 0 > 0
   \<and> (case calculate_local_spreads demo_volume True of (msum, vyy, vzz, xx00) \<Rightarrow>
         msum ! 0 = 8 \<and> vyy ! 0 = Fin (1 / 4) \<and> vzz ! 0 = Fin (15 / 64))
   \<and> 1 < ncols_of demo_volume \<and> spec_slab_sum demo_volume 1 = 0
   \<and> (case calculate_local_spreads demo_volume True of (msum, vyy, vzz, xx00) \<Rightarrow>
         msum ! 1 = 0 \<and> vyy ! 1 = NaN \<and> vzz ! 1 = NaN)"
  using local_spreads_standard [of 0 demo_volume] local_spreads_standard [of 1 demo_volume]
  by (simp add: demo_shape demo_spec_values split: prod.splits)

section \<open>Voxel size scaling\<close>

lemma pixel_spreads_returns:
  assumes "length coords = length msum" "length vyy = length msum" "length vzz = length msum"
  shows "\<exists>sx sy sz. pixel_spreads np_sum msum vyy vzz coords = Inr (sx, sy, sz)"
  using assms by (simp add: pixel_spreads_def broadcast_def Let_def)

lemma physical_error:
  "\<exists>r. np_round2 (fl_mul (Fin s) (Fin v)) = Fin r
      \<and> \<bar>r - s * v\<bar> \<le> 1 / 200 + (7 * \<bar>s * v\<bar> + 1 / 200) / 2 ^ 53"
  using round2_fl_error [of "s * v"] by simp

lemma sum_in_order_values:
  "sum_in_order [1, 1] = 2" "sum_in_order [1, 3] = 4" "sum_in_order [0, 0] = 0"
  by (simp_all add: sum_in_order_def fl_values fl_zero)

lemma profile_1_1_pixel_spreads:
  "pixel_spreads sum_in_order [1, 1] [Fin 0, NaN] [Fin 0, NaN] [1, 3] = Inr (Fin 1, Fin 0, Fin 0)"
  by (simp add: pixel_spreads_def broadcast_def Let_def sum_in_order_values nansum_def
      fl_values fl_zero)

text \<open>
  C7, as stated: scaling one axis's voxel size by \<open>k\<close> scales the returned physical-unit
  spread of that axis by exactly \<open>k\<close>. It does not, because the returned value is rounded
  to two decimals: for the profile with sums 1, 1 at positions 1, 3 the pixel spread along
  x is 1; with voxel size 1/256 the returned physical spread is 0.0, and with voxel size
  2/256 it is 0.01, not twice 0.0.
\<close>

theorem voxel_scaling_exact_counterexample:
  "map_sum id spread_x_um (calculate_global_spreads sum_in_order
       \<lparr>voxel_size_x = 1 / 256, voxel_size_y = 1, voxel_size_z = 1\<rparr>
       [1, 1] [Fin 0, NaN] [Fin 0, NaN] [1, 3]) = Inr (Fin 0)
   \<and> map_sum id spread_x_um (calculate_global_spreads sum_in_order
       \<lparr>voxel_size_x = 2 * (1 / 256), voxel_size_y = 1, voxel_size_z = 1\<rparr>
       [1, 1] [Fin 0, NaN] [Fin 0, NaN] [1, 3]) = Inr (Fin (fl (1 / 100)))
   \<and> Fin (fl (1 / 100)) \<noteq> fl_mul (Fin 2) (Fin 0)"
  using fl_pos [of "1 / 100"]
  by (simp add: calculate_global_spreads_def global_raw_def physical_spreads_def
      rounded_results_def profile_1_1_pixel_spreads sum_in_order_values Let_def round2_def
      fl_values fl_zero rint_values)

text \<open>
  C7, amended: for a profile with nonzero total whose four arrays have the same length, and
  a factor \<open>k > 0\<close>, \<open>calculate_global_spreads\<close> returns a record for every choice of the
  voxel sizes. The three pixel-unit spreads before rounding do not depend on the voxel
  sizes. Each returned physical-unit spread is the \<open>float64\<close> product of the pixel spread
  of its axis and the voxel size of that axis, rounded to two decimals; with the voxel size
  of one axis scaled by \<open>k\<close> the returned spread of that axis is the rounded product with
  the scaled voxel size, which for a finite pixel spread \<open>s\<close> and voxel size \<open>v\<close> lies
  within \<open>0.005 + (7 k s v + 0.005) / 2^53\<close> of \<open>k\<close> times the exact product \<open>s v\<close>; all
  returned pixel-unit spreads are unchanged.
\<close>

theorem voxel_scaling_before_rounding:
  assumes "np_sum msum \<noteq> 0" and "k > 0"
    and "length coords = length msum" and "length vyy = length msum"
    and "length vzz = length msum"
  shows "\<exists>sx sy sz R X Y Z.
           pixel_spreads np_sum msum vyy vzz coords = Inr (sx, sy, sz)
         \<and> calculate_global_spreads np_sum self msum vyy vzz coords = Inr R
         \<and> calculate_global_spreads np_sum (self\<lparr>voxel_size_x := k * voxel_size_x self\<rparr>)
              msum vyy vzz coords = Inr X
         \<and> calculate_global_spreads np_sum (self\<lparr>voxel_size_y := k * voxel_size_y self\<rparr>)
              msum vyy vzz coords = Inr Y
         \<and> calculate_global_spreads np_sum (self\<lparr>voxel_size_z := k * voxel_size_z self\<rparr>)
              msum vyy vzz coords = Inr Z
         \<and> spread_x_pixel R = np_round2 sx
         \<and> spread_y_pixel R = np_round2 sy
         \<and> spread_z_pixel R = np_round2 sz
         \<and> spread_x_um R = np_round2 (fl_mul sx (Fin (voxel_size_x self)))
         \<and> spread_y_um R = np_round2 (fl_mul sy (Fin (voxel_size_y self)))
         \<and> spread_z_um R = np_round2 (fl_mul sz (Fin (voxel_size_z self)))
         \<and> spread_x_um X = np_round2 (fl_mul sx (Fin (k * voxel_size_x self)))
         \<and> spread_y_um Y = np_round2 (fl_mul sy (Fin (k * voxel_size_y self)))
         \<and> spread_z_um Z = np_round2 (fl_mul sz (Fin (k * voxel_size_z self)))
         \<and> (\<forall>s. sx = Fin s \<longrightarrow> (\<exists>r. spread_x_um X = Fin r
                \<and> \<bar>r - k * (s * voxel_size_x self)\<bar>
                     \<le> 1 / 200 + (7 * \<bar>k * (s * voxel_size_x self)\<bar> + 1 / 200) / 2 ^ 53))
         \<and> (\<forall>s. sy = Fin s \<longrightarrow> (\<exists>r. spread_y_um Y = Fin r
                \<and> \<bar>r - k * (s * voxel_size_y self)\<bar>
                     \<le> 1 / 200 + (7 * \<bar>k * (s * voxel_size_y self)\<bar> + 1 / 200) / 2 ^ 53))
         \<and> (\<forall>s. sz = Fin s \<longrightarrow> (\<exists>r. spread_z_um Z = Fin r
                \<and> \<bar>r - k * (s * voxel_size_z self)\<bar>
                     \<le> 1 / 200 + (7 * \<bar>k * (s * voxel_size_z self)\<bar> + 1 / 200) / 2 ^ 53))
         \<and> list_all (\<lambda>S. spread_x_pixel S = spread_x_pixel R
                        \<and> spread_y_pixel S = spread_y_pixel R
                        \<and> spread_z_pixel S = spread_z_pixel R
                        \<and> spread_xy_pixel S = spread_xy_pixel R
                        \<and> spread_xyz_pixel S = spread_xyz_pixel R) [X, Y, Z]"
proof -
  from pixel_spreads_returns [OF assms(3-5)] obtain sx sy sz
    where p: "pixel_spreads np_sum msum vyy vzz coords = Inr (sx, sy, sz)" by blast
  have ex: "\<exists>r. np_round2 (fl_mul (Fin s) (Fin (k * v))) = Fin r
      \<and> \<bar>r - k * (s * v)\<bar> \<le> 1 / 200 + (7 * \<bar>k * (s * v)\<bar> + 1 / 200) / 2 ^ 53" for s v
    using physical_error [of s "k * v"] by (simp add: mult.left_commute)
  show ?thesis
    using assms(1) ex
    by (simp add: calculate_global_spreads_def global_raw_def physical_spreads_def
        rounded_results_def p Let_def)
qed

theorem voxel_scaling_before_rounding_witness:
  "sum_in_order [1, 1] \<noteq> 0 \<and> (2 :: real) > 0
   \<and> length [1, 3 :: real] = length [1, 1 :: real]
   \<and> length [Fin 0, NaN] = length [1, 1 :: real]
   \<and> pixel_spreads sum_in_order [1, 1] [Fin 0, NaN] [Fin 0, NaN] [1, 3]
       = Inr (Fin 1, Fin 0, Fin 0)
   \<and> (\<exists>X r. calculate_global_spreads sum_in_order
          (\<lparr>voxel_size_x = 1 / 256, voxel_size_y = 1, voxel_size_z = 1\<rparr>
             \<lparr>voxel_size_x := 2 * voxel_size_x
                \<lparr>voxel_size_x = 1 / 256, voxel_size_y = 1, voxel_size_z = 1\<rparr>\<rparr>)
          [1, 1] [Fin 0, NaN] [Fin 0, NaN] [1, 3] = Inr X
        \<and> spread_x_um X = np_round2 (fl_mul (Fin 1) (Fin (2 * (1 / 256))))
        \<and> spread_x_um X = Fin r
        \<and> \<bar>r - 2 * (1 * (1 / 256))\<bar>
             \<le> 1 / 200 + (7 * \<bar>2 * (1 * (1 / 256)) :: real\<bar> + 1 / 200) / 2 ^ 53)"
proof -
  have h: "sum_in_order [1, 1] \<noteq> 0" "(2 :: real) > 0"
    "length [1, 3 :: real] = length [1, 1 :: real]"
    "length [Fin 0, NaN] = length [1, 1 :: real]"
    by (simp_all add: sum_in_order_values)
  from voxel_scaling_before_rounding
      [where np_sum = sum_in_order and msum = "[1, 1]" and k = 2 and coords = "[1, 3]"
         and vyy = "[Fin 0, NaN]" and vzz = "[Fin 0, NaN]"
         and self = "\<lparr>voxel_size_x = 1 / 256, voxel_size_y = 1, voxel_size_z = 1\<rparr>",
       OF h(1) h(2) h(3) h(4) h(4)]
  obtain sx sy sz X where
    p: "pixel_spreads sum_in_order [1, 1] [Fin 0, NaN] [Fin 0, NaN] [1, 3] = Inr (sx, sy, sz)"
    and X: "calculate_global_spreads sum_in_order
          (\<lparr>voxel_size_x = 1 / 256, voxel_size_y = 1, voxel_size_z = 1\<rparr>
             \<lparr>voxel_size_x := 2 * voxel_size_x
                \<lparr>voxel_size_x = 1 / 256, voxel_size_y = 1, voxel_size_z = 1\<rparr>\<rparr>)
          [1, 1] [Fin 0, NaN] [Fin 0, NaN] [1, 3] = Inr X"
    and e: "spread_x_um X = np_round2 (fl_mul sx (Fin (2 * voxel_size_x
                \<lparr>voxel_size_x = 1 / 256, voxel_size_y = 1, voxel_size_z = 1\<rparr>)))"
    and b: "\<forall>s. sx = Fin s \<longrightarrow> (\<exists>r. spread_x_um X = Fin r
                \<and> \<bar>r - 2 * (s * voxel_size_x
                      \<lparr>voxel_size_x = 1 / 256, voxel_size_y = 1, voxel_size_z = 1\<rparr>)\<bar>
                     \<le> 1 / 200 + (7 * \<bar>2 * (s * voxel_size_x
                      \<lparr>voxel_size_x = 1 / 256, voxel_size_y = 1, voxel_size_z = 1\<rparr>)\<bar>
                        + 1 / 200) / 2 ^ 53)"
    by blast
  from p have sx: "sx = Fin 1" by (simp add: profile_1_1_pixel_spreads)
  from b sx obtain r where r: "spread_x_um X = Fin r"
    "\<bar>r - 2 * (1 * (1 / 256))\<bar> \<le> 1 / 200 + (7 * \<bar>2 * (1 * (1 / 256)) :: real\<bar> + 1 / 200) / 2 ^ 53"
    by auto
  have "spread_x_um X = np_round2 (fl_mul (Fin 1) (Fin (2 * (1 / 256))))"
    using e sx by simp
  with h X r show ?thesis
    unfolding profile_1_1_pixel_spreads by blast
qed

text \<open>
  The product that is rounded to two decimals is the \<open>float64\<close> one. For the profile with
  sums 1, 4 at positions 1, 2 the pixel spread along x is 0.4 up to rounding; with voxel
  size 1.0625 the exact product 0.425 is a tie that rounding to even would take to 0.42,
  and the function returns 0.43.
\<close>

lemma voxel_scaling_float_product:
  "map_sum id spread_x_um (calculate_global_spreads sum_in_order
       \<lparr>voxel_size_x = 17 / 16, voxel_size_y = 1, voxel_size_z = 1\<rparr>
       [1, 4] [Fin 0, Fin 0] [Fin 0, Fin 0] [1, 2]) = Inr (Fin (fl (43 / 100)))
   \<and> rint (2 / 5 * (17 / 16) * 100) = 42 \<and> fl (43 / 100) \<noteq> fl (42 / 100)"
  by (simp add: calculate_global_spreads_def global_raw_def pixel_spreads_def broadcast_def
      physical_spreads_def rounded_results_def nansum_def sum_in_order_def Let_def
      round2_def fl_zero fl_table fl_sqrt_table_1 fl_sqrt_table_2 fl_sqrt_table_3 rint_table)

section \<open>The all-zero volume\<close>

lemma zeros_shape:
  "nrows_of (np_zeros a b c) = a"
  "ncols_of (np_zeros a b c) = (if a = 0 then 0 else b)"
  "depth_of (np_zeros a b c) = (if a = 0 \<or> b = 0 then 0 else c)"
  by (cases a; cases b; simp add: np_zeros_def nrows_of_def ncols_of_def depth_of_def)+

lemma zeros_nth:
  "y < a \<Longrightarrow> x < b \<Longrightarrow> z < c \<Longrightarrow> np_zeros a b c ! y ! x ! z = 0"
  by (simp add: np_zeros_def)

lemma map_const_upt: "map (\<lambda>i. k) [0..<n] = replicate n k"
  by (simp add: map_replicate_const)

lemma map_upt_const: "(\<And>i. i < n \<Longrightarrow> f i = k) \<Longrightarrow> map f [0..<n] = replicate n k"
  by (simp add: list_eq_iff_nth_eq)

lemma voxels_zeros: "set (voxels (np_zeros a b c)) \<subseteq> {0}"
  by (auto simp: voxels_def np_zeros_def)

lemma zero_volume_is_zeros:
  assumes "rectangular v" "list_all (\<lambda>a. a = 0) (voxels v)"
  shows "v = np_zeros (nrows_of v) (ncols_of v) (depth_of v)"
proof -
  have cell: "c = replicate (depth_of v) 0" if "r \<in> set v" "c \<in> set r" for r c
  proof -
    have "length c = depth_of v" using assms(1) that by (auto simp: rectangular_def list_all_iff)
    moreover have "\<forall>a \<in> set c. a = 0"
      using assms(2) that by (auto simp: voxels_def list_all_iff)
    ultimately show ?thesis by (metis replicate_eqI)
  qed
  have row: "r = replicate (ncols_of v) (replicate (depth_of v) 0)" if "r \<in> set v" for r
  proof -
    have "length r = ncols_of v" using assms(1) that by (auto simp: rectangular_def list_all_iff)
    then show ?thesis using cell [OF that] by (metis replicate_eqI)
  qed
  show ?thesis unfolding np_zeros_def nrows_of_def using row by (metis replicate_eqI)
qed

lemma zero_slice_is_replicate:
  assumes "zero_slice s"
  shows "s = replicate (nrows_of s) (replicate (ncols_of s) 0)"
proof -
  have "r = replicate (ncols_of s) 0" if "r \<in> set s" for r
    using assms that unfolding zero_slice_def list_all_iff by (metis replicate_eqI)
  then show ?thesis unfolding nrows_of_def by (metis replicate_eqI)
qed

lemma zero_slice_replicate: "zero_slice (replicate a (replicate b 0))"
  by (cases a) (simp_all add: zero_slice_def ncols_of_def list_all_iff)

lemma transpose_zeros:
  assumes "a > 0" "b > 0" "c > 0"
  shows "transpose_120 (np_zeros a b c) = np_zeros b c a"
  using assms unfolding transpose_120_def zeros_shape np_zeros_def [of b c a]
  by (auto intro!: map_upt_const simp: zeros_nth)

lemma to_yxz_zeros:
  assumes "a > 0" "b > 0" "c > 0"
  shows "\<exists>a' b' c'. a' > 0 \<and> b' > 0 \<and> c' > 0 \<and> to_yxz (np_zeros a b c) = np_zeros a' b' c'"
  using assms transpose_zeros [OF assms] unfolding to_yxz_def by (auto simp: zeros_shape)

lemma slice_zeros:
  assumes "z < c"
  shows "slice_z (np_zeros a b c) z = replicate a (replicate b 0)"
  using assms by (simp add: slice_z_def np_zeros_def)

lemma rotate_zeros:
  assumes "maps_zero_to_zero rot" "a > 0" "b > 0" "c > 0"
  shows "\<exists>p q. rotate_image rot (np_zeros a b c) angle = Inr (np_zeros p q c)"
proof -
  let ?R = "rot angle (replicate a (replicate b 0))"
  have zR: "zero_slice ?R" using assms(1) zero_slice_replicate by (simp add: maps_zero_to_zero_def)
  have R: "?R = replicate (nrows_of ?R) (replicate (ncols_of ?R) 0)"
    by (rule zero_slice_is_replicate [OF zR])
  have sl: "map (\<lambda>zi. rot angle (slice_z (np_zeros a b c) zi)) [0..<c] = replicate c ?R"
    by (intro map_upt_const) (simp add: slice_zeros)
  have first: "rot angle (slice_z (np_zeros a b c) 0) = ?R" using assms(4) by (simp add: slice_zeros)
  have el: "?R ! y ! x = 0" if "y < nrows_of ?R" "x < ncols_of ?R" for y x
    using that by (subst R) simp
  have "stack_slices (nrows_of ?R) (ncols_of ?R) (replicate c ?R)
          = np_zeros (nrows_of ?R) (ncols_of ?R) c"
    unfolding stack_slices_def np_zeros_def
    by (intro map_upt_const) (simp add: el)
  moreover have depth: "depth_of (np_zeros a b c) = c" using assms(2-4) by (simp add: zeros_shape)
  ultimately show ?thesis
    using assms(4) unfolding rotate_image_def Let_def depth sl first
    by (auto simp: list_all_iff)
qed

lemma zeros_nth2: "y < a \<Longrightarrow> x < b \<Longrightarrow> np_zeros a b c ! y ! x = replicate c 0"
  by (simp add: np_zeros_def)

lemma rot90_zeros: "\<exists>p' q'. rot90 (np_zeros p q c) = np_zeros p' q' c"
proof (cases "p = 0")
  case True
  then have "rot90 (np_zeros p q c) = np_zeros 0 0 c"
    by (simp add: rot90_def np_zeros_def nrows_of_def ncols_of_def)
  then show ?thesis by blast
next
  case False
  then have "rot90 (np_zeros p q c) = np_zeros q p c"
    unfolding rot90_def Let_def zeros_shape np_zeros_def [of q p c]
    by (auto intro!: map_upt_const simp: zeros_nth2)
  then show ?thesis by blast
qed

lemma sum_list_concat_real: "sum_list (concat xss) = sum_list (map sum_list (xss :: real list list))"
  by (induction xss) simp_all

lemma sum3_voxels: "sum3 v = sum_list (voxels v)"
proof -
  have "sum2 = (\<lambda>m. sum_list (map sum_list m))" by (rule ext) (simp add: sum2_def)
  then show ?thesis
    by (simp add: sum3_def voxels_def sum_list_concat_real map_concat comp_def)
qed

lemma nonneg_total_zero:
  assumes "list_all (\<lambda>a. 0 \<le> a) (voxels v)" "sum3 v = 0"
  shows "list_all (\<lambda>a. a = 0) (voxels v)"
proof -
  have "\<forall>a \<in> set (voxels v). 0 \<le> a" using assms(1) by (simp add: list_all_iff)
  then have "\<forall>a \<in> set (voxels v). a = 0"
    using assms(2) unfolding sum3_voxels by (simp add: sum_list_nonneg_eq_0_iff)
  then show ?thesis by (simp add: list_all_iff)
qed

lemma no_negative_zeros: "\<not> list_ex (\<lambda>a. a < 0) (voxels (np_zeros a b c))"
  using voxels_zeros [of a b c] by (auto simp: list_ex_iff)

lemma pca_angle_zeros: "calculate_pca_rotation_angle eig (np_zeros a b c) = Fin 0"
  by (simp add: calculate_pca_rotation_angle_def np_zeros_def sum2_def sum_list_replicate Let_def)

lemma local_sums_zeros:
  "fst (calculate_local_spreads (np_zeros a b c) True) = replicate (ncols_of (np_zeros a b c)) 0"
proof -
  let ?Z = "np_zeros a b c"
  have "spec_slab_sum ?Z i = 0" if "i < ncols_of ?Z" for i
    using that unfolding spec_slab_sum_def
    by (intro sum.neutral ballI) (auto simp: zeros_shape zeros_nth split: if_splits)
  then have "fst (slab_spreads (nrows_of ?Z) (depth_of ?Z) (column_slab_T ?Z i)) = 0"
    if "i < ncols_of ?Z" for i
    using that by (simp add: slab_spreads_column)
  then show ?thesis
    unfolding calculate_local_spreads_def Let_def
    by (simp add: comp_def map_upt_const)
qed

lemma global_of_zero_sums:
  "np_sum msum = 0 \<Longrightarrow>
     calculate_global_spreads np_sum self msum vyy vzz coords = Inr get_empty_results"
  by (simp add: calculate_global_spreads_def)

lemma sum_in_order_zeros: "sum_in_order (replicate n 0) = 0"
proof -
  have "foldl (\<lambda>a x. fl (a + x)) 0 (replicate n 0) = 0"
    by (induction n) (simp_all add: fl_zero)
  then show ?thesis by (simp add: sum_in_order_def)
qed

lemma empty_depth_rotate: "rotate_image rot [[[], []], [[], []]] angle = Inl IndexError"
  by (simp add: rotate_image_def depth_of_def ncols_of_def)

text \<open>
  C3, as stated: for every volume with zero total intensity \<open>process_image\<close> returns
  without raising. It does not for a volume with no slice: for the all-zero volume of
  shape (2, 2, 0), of total intensity 0 and with no negative value, reading slice 0 in
  \<open>rotate_image\<close> (line 229) raises IndexError. Nor does it for a volume whose
  intensities cancel: the volume of one row, one column and the two slices 1 and -1 has
  total intensity 0 and raises the ValueError of line 644.
\<close>

theorem process_image_zero_total_counterexample:
  "rectangular [[[], []], [[], []]] \<and> sum3 [[[], []], [[], []]] = 0
   \<and> \<not> list_ex (\<lambda>a. a < 0) (voxels [[[], []], [[], []]])
   \<and> process_image \<lparr>voxel_size_x = 1, voxel_size_y = 1, voxel_size_z = 1\<rparr>
        sum_in_order eig_of_diagonal no_rotation [[[], []], [[], []]] 1 = Inl IndexError
   \<and> rectangular [[[1, - 1]]] \<and> sum3 [[[1, - 1]]] = 0
   \<and> process_image \<lparr>voxel_size_x = 1, voxel_size_y = 1, voxel_size_z = 1\<rparr>
        sum_in_order eig_of_diagonal no_rotation [[[1, - 1]]] 1
       = Inl (ValueError_negative_image 1)"
  by (simp add: process_image_def Let_def empty_depth_rotate to_yxz_def nrows_of_def
      ncols_of_def depth_of_def voxels_def rectangular_def sum3_def sum2_def
      transpose_120_def count_negative_def upt_1 split: prod.splits)

text \<open>
  C3, amended: for a volume with at least one row, one column and one slice, of
  non-negative intensities whose total is zero, a slice rotation that maps an all-zero
  slice to an all-zero slice and a summation that returns 0 for an array of zeros,
  \<open>process_image\<close> returns a result (it does not raise) in which every spread metric,
  in pixel and in physical units, and the axonal volume are 0.0, whatever the region area;
  in particular the rotation angle of a zero projection is 0.0, and
  \<open>calculate_global_spreads\<close> returns the all-zero record when the profile total is 0.
\<close>

theorem process_image_zero_volume:
  assumes "rectangular image_3d" and "depth_of image_3d > 0"
    and "list_all (\<lambda>a. 0 \<le> a) (voxels image_3d)" and "sum3 image_3d = 0"
    and "maps_zero_to_zero rot" and "\<And>n. np_sum (replicate n 0) = 0"
  shows "(\<exists>R. process_image self np_sum eig rot image_3d mask_area_pixels = Inr R
            \<and> spread_x_pixel R = Fin 0 \<and> spread_y_pixel R = Fin 0 \<and> spread_z_pixel R = Fin 0
            \<and> spread_xy_pixel R = Fin 0 \<and> spread_xyz_pixel R = Fin 0
            \<and> spread_x_um R = Fin 0 \<and> spread_y_um R = Fin 0 \<and> spread_z_um R = Fin 0
            \<and> spread_xy_um R = Fin 0 \<and> spread_xyz_um R = Fin 0
            \<and> axonal_volume R = Fin 0)
       \<and> calculate_pca_rotation_angle eig (to_yxz image_3d) = Fin 0
       \<and> (np_sum msum = 0 \<longrightarrow>
            calculate_global_spreads np_sum self msum vyy vzz coords = Inr get_empty_results)"
proof -
  let ?a = "nrows_of image_3d" and ?b = "ncols_of image_3d" and ?c = "depth_of image_3d"
  have pos: "?a > 0" "?b > 0" "?c > 0"
    using assms(2) by (auto simp: nrows_of_def ncols_of_def depth_of_def split: list.splits)
  have v: "image_3d = np_zeros ?a ?b ?c"
    by (rule zero_volume_is_zeros [OF assms(1) nonneg_total_zero [OF assms(3,4)]])
  from to_yxz_zeros [OF pos] v obtain a' b' c' where
    yxz: "a' > 0" "b' > 0" "c' > 0" "to_yxz image_3d = np_zeros a' b' c'" by metis
  from rotate_zeros [OF assms(5) yxz(1-3)] obtain p q where
    rotd: "rotate_image rot (np_zeros a' b' c') (Fin 0) = Inr (np_zeros p q c')" by blast
  from rot90_zeros obtain p' q' where r90: "rot90 (np_zeros p q c') = np_zeros p' q' c'" by blast
  obtain m1 m2 m3 m4 where
    ls: "calculate_local_spreads (np_zeros p' q' c') True = (m1, m2, m3, m4)"
    by (metis prod.collapse)
  have "np_sum m1 = 0" using local_sums_zeros [of p' q' c'] ls assms(6) by simp
  then have g: "calculate_global_spreads np_sum self m1 m2 m3 m4 = Inr get_empty_results"
    by (rule global_of_zero_sums)
  have "\<exists>f1 f2. process_image self np_sum eig rot image_3d mask_area_pixels
          = Inr (get_empty_results \<lparr> fluorescence_px := Some f1, fluorescence_um := Some f2,
                   rotation_angle := Some (np_round2 (Fin 0)), additional_rotation := Some 90 \<rparr>)"
    unfolding process_image_def Let_def yxz(4)
    by (auto simp: no_negative_zeros pca_angle_zeros rotd r90 ls g split: prod.splits)
  then have "\<exists>R. process_image self np_sum eig rot image_3d mask_area_pixels = Inr R
            \<and> spread_x_pixel R = Fin 0 \<and> spread_y_pixel R = Fin 0 \<and> spread_z_pixel R = Fin 0
            \<and> spread_xy_pixel R = Fin 0 \<and> spread_xyz_pixel R = Fin 0
            \<and> spread_x_um R = Fin 0 \<and> spread_y_um R = Fin 0 \<and> spread_z_um R = Fin 0
            \<and> spread_xy_um R = Fin 0 \<and> spread_xyz_um R = Fin 0
            \<and> axonal_volume R = Fin 0"
    by (auto simp: get_empty_results_def)
  then show ?thesis
    unfolding yxz(4) by (simp add: pca_angle_zeros global_of_zero_sums)
qed

theorem process_image_zero_volume_witness:
  "rectangular [[[0, 0]], [[0, 0]]] \<and> depth_of [[[0, 0 :: real]], [[0, 0]]] > 0
   \<and> list_all (\<lambda>a. 0 \<le> a) (voxels [[[0, 0]], [[0, 0]]]) \<and> sum3 [[[0, 0]], [[0, 0]]] = 0
   \<and> maps_zero_to_zero no_rotation \<and> sum_in_order (replicate 3 0) = 0
   \<and> sum_in_order [0, 0] = 0
   \<and> (\<exists>R. process_image \<lparr>voxel_size_x = 1, voxel_size_y = 1, voxel_size_z = 1\<rparr>
              sum_in_order eig_of_diagonal no_rotation [[[0, 0]], [[0, 0]]] 5 = Inr R
            \<and> spread_x_pixel R = Fin 0 \<and> spread_xyz_um R = Fin 0 \<and> axonal_volume R = Fin 0)
   \<and> calculate_global_spreads sum_in_order
        \<lparr>voxel_size_x = 1, voxel_size_y = 1, voxel_size_z = 1\<rparr>
        [0, 0] [NaN, NaN] [NaN, NaN] [1, 2] = Inr get_empty_results"
proof -
  have h: "rectangular [[[0, 0]], [[0, 0]]]" "depth_of [[[0, 0 :: real]], [[0, 0]]] > 0"
    "list_all (\<lambda>a. 0 \<le> a) (voxels [[[0, 0]], [[0, 0]]])" "sum3 [[[0, 0]], [[0, 0]]] = 0"
    "maps_zero_to_zero no_rotation"
    by (simp_all add: rectangular_def ncols_of_def depth_of_def voxels_def sum3_def sum2_def
        maps_zero_to_zero_def no_rotation_def)
  have z: "sum_in_order [0, 0] = 0" using sum_in_order_zeros [of 2]
    by (simp add: numeral_2_eq_2)
  show ?thesis
    using h z sum_in_order_zeros [of 3] process_image_zero_volume
      [where np_sum = sum_in_order and image_3d = "[[[0, 0]], [[0, 0]]]"
        and rot = no_rotation and msum = "[0, 0]" and eig = eig_of_diagonal
        and mask_area_pixels = 5
        and self = "\<lparr>voxel_size_x = 1, voxel_size_y = 1, voxel_size_z = 1\<rparr>"
        and vyy = "[NaN, NaN]" and vzz = "[NaN, NaN]" and coords = "[1, 2]",
       OF h sum_in_order_zeros]
    by auto
qed

section \<open>Intensity scaling\<close>


















lemma scale_shape:
  "nrows_of (scale_volume c v) = nrows_of v"
  "ncols_of (scale_volume c v) = ncols_of v"
  "depth_of (scale_volume c v) = depth_of v"
  by (simp_all add: scale_volume_def nrows_of_def ncols_of_def depth_of_def split: list.splits)



lemma scale_rectangular: "rectangular v \<Longrightarrow> rectangular (scale_volume c v)"
  unfolding rectangular_def scale_shape by (simp add: scale_volume_def list_all_iff)


































lemma single_voxel_angle:
  assumes "x \<noteq> 0"
  shows "calculate_pca_rotation_angle eig_of_diagonal [[[x]]] = Fin 0"
  using assms
  by (simp add: calculate_pca_rotation_angle_def sum2_def eig_of_diagonal_def
      first_column_angle_cases split: prod.splits)



















end
